theory Spec2Isabelle
  imports Complex_Main "HOL-Library.AList" "HOL-Library.Log_Nat"
begin

section \<open>Conventions of the embedding\<close>

text \<open>
  The program is an in-memory order and product service written in JavaScript.
  \<^item> A JavaScript number is a rational (\<open>rat\<close>): a finite double is one, and \<open>NaN\<close> and the
    infinities are not modelled. The stock arithmetic (\<open>stock -= quantity\<close>,
    \<open>stock += quantity\<close>) rounds its result to the nearest double, as the claims about stock
    depend on it; the arithmetic on money is written with the exact operations, and what is
    stated about money are equations between the operations of the code. Identifiers
    generated by the store counters are natural numbers.
  \<^item> A string is the list of its UTF-16 code units (\<open>js_string\<close>), so that \<open>length\<close> is the
    \<open>length\<close> of the source; an absent or \<open>undefined\<close> string field is the empty string
    (both are falsy and take the same branches). An absent array is \<open>None\<close>.
  \<^item> \<open>String.prototype.toLowerCase\<close> is a parameter (\<open>toLowerCase\<close>) of the operations that
    use it: its table of case mappings is not part of the program.
  \<^item> \<open>Product\<close> objects and listener objects are shared by reference in the source, so
    they live in explicit heaps (functions from addresses to objects) and the
    collections and order items hold addresses.
  \<^item> A thrown value is a value of type \<open>error\<close>; a method that may throw after it has
    changed the state returns the new state together with the outcome.
  \<^item> The time stamps \<open>createdAt\<close> and \<open>updatedAt\<close> are left out.
\<close>

type_synonym ref = nat

section \<open>Strings\<close>

type_synonym js_string = "nat list"

text \<open>The code units of a string literal of the source that is written in ASCII.\<close>

definition utf16 :: "string \<Rightarrow> js_string" where
  "utf16 s = map of_char s"

text \<open>
  \<open>String.prototype.trim\<close> removes white space and line terminators from both ends: the
  code units U+0009 to U+000D, U+0020, U+00A0, U+1680, U+2000 to U+200A, U+2028, U+2029,
  U+202F, U+205F, U+3000 and U+FEFF.
\<close>

definition is_space :: "nat \<Rightarrow> bool" where
  "is_space c =
     ((9 \<le> c \<and> c \<le> 13) \<or> c = 32 \<or> c = 160 \<or> c = 5760 \<or> (8192 \<le> c \<and> c \<le> 8202) \<or>
      c = 8232 \<or> c = 8233 \<or> c = 8239 \<or> c = 8287 \<or> c = 12288 \<or> c = 65279)"

definition trim :: "js_string \<Rightarrow> js_string" where
  "trim s = rev (dropWhile is_space (rev (dropWhile is_space s)))"

section \<open>Numbers\<close>

text \<open>
  The result of an addition or subtraction of doubles is the double nearest to the exact
  result, the one with the even significand when two are equally near. \<open>exponent x\<close> is
  the integer \<open>e\<close> with \<open>2^e \<le> |x| < 2^(e+1)\<close>; a double has 53 significant bits. The range
  of the exponent is not bounded here: a sum or difference of doubles that is below the
  normal range is exact, and one that is above the range (\<open>Infinity\<close> in the source) is not
  modelled.
\<close>

definition round_half_even :: "rat \<Rightarrow> int" where
  "round_half_even x =
     (if x - of_int \<lfloor>x\<rfloor> < 1 / 2 then \<lfloor>x\<rfloor>
      else if 1 / 2 < x - of_int \<lfloor>x\<rfloor> then \<lfloor>x\<rfloor> + 1
      else if even \<lfloor>x\<rfloor> then \<lfloor>x\<rfloor> else \<lfloor>x\<rfloor> + 1)"

definition exponent :: "rat \<Rightarrow> int" where
  "exponent x =
     (if 1 \<le> \<bar>x\<bar> then bitlen \<lfloor>\<bar>x\<bar>\<rfloor> - 1 else - bitlen (\<lceil>1 / \<bar>x\<bar>\<rceil> - 1))"

definition binary64 :: "rat \<Rightarrow> rat" where
  "binary64 x =
     (if x = 0 then 0
      else if 52 \<le> exponent x
      then of_int (round_half_even (x / 2 ^ nat (exponent x - 52))) * 2 ^ nat (exponent x - 52)
      else of_int (round_half_even (x * 2 ^ nat (52 - exponent x))) / 2 ^ nat (52 - exponent x))"

section \<open>Errors\<close>

text \<open>One constructor per message that a validation strategy can push.\<close>

datatype violation =
    CustomerIdRequired
  | CustomerNameRequired
  | CustomerNameTooShort
  | ItemsRequired
  | ItemsEmpty
  | ItemProductIdRequired nat
  | ItemQuantityNotPositive nat
  | ItemQuantityNotInteger nat
  | ProductNameRequired
  | ProductNameTooShort
  | ProductNameTooLong
  | PriceRequired
  | PriceNegative
  | PriceZero
  | StockRequired
  | StockNotInteger
  | StockNegative
  | CategoryRequired
  | DescriptionTooLong
  | UpdateNameEmpty
  | UpdateNameTooShort
  | UpdateNameTooLong
  | UpdateCategoryEmpty

text \<open>
  A thrown value: one constructor per \<open>throw new Error(...)\<close> site, carrying what the message
  shows; \<open>TypeError\<close> for the error of reading a property of \<open>null\<close> or \<open>undefined\<close>;
  \<open>Nullish\<close> for the values \<open>null\<close> and \<open>undefined\<close> when they are thrown, and \<open>OtherValue\<close>
  for any other value that a listener may throw.
\<close>

datatype error =
    ValidationFailed "violation list"
  | CustomerDataRequired
  | OrderItemsRequired
  | ProductNotFound nat
  | InsufficientStock js_string rat rat
  | ReduceStockFailed js_string
  | ProductIdNotFound "nat option"
  | OrderNotFound nat
  | OrderIdNotFound nat
  | InvalidStatus js_string
  | CannotCancel js_string
  | ProductNameExists js_string
  | InvalidPercentage
  | NegativeAmount
  | NotImplemented string
  | TypeError
  | Nullish
  | OtherValue

section \<open>Product (models/Product.js)\<close>

text \<open>The id of a product is \<open>null\<close> (\<open>None\<close>) until the repository stores the object.\<close>

record Product =
  p_id :: "nat option"
  p_name :: js_string
  p_description :: js_string
  p_price :: rat
  p_stock :: rat
  p_category :: js_string

text \<open>
  The argument of \<open>Product.update\<close>: any object; a field that is absent is \<open>None\<close>.
\<close>

record update_data =
  u_name :: "js_string option"
  u_description :: "js_string option"
  u_price :: "rat option"
  u_stock :: "rat option"
  u_category :: "js_string option"

text \<open>JavaScript truthiness of an optional string and of an optional number.\<close>

fun truthy_str :: "js_string option \<Rightarrow> bool" where
  "truthy_str None = False"
| "truthy_str (Some s) = (s \<noteq> [])"

fun truthy_num :: "rat option \<Rightarrow> bool" where
  "truthy_num None = False"
| "truthy_num (Some x) = (x \<noteq> 0)"

definition Product_update :: "Product \<Rightarrow> update_data \<Rightarrow> Product" where
  "Product_update this d =
     this\<lparr>p_name := (if truthy_str (u_name d) then the (u_name d) else p_name this),
          p_description :=
            (if truthy_str (u_description d) then the (u_description d) else p_description this),
          p_price := (if truthy_num (u_price d) then the (u_price d) else p_price this),
          p_stock := (if u_stock d \<noteq> None then the (u_stock d) else p_stock this),
          p_category :=
            (if truthy_str (u_category d) then the (u_category d) else p_category this)\<rparr>"

text \<open>A \<open>Product\<close> object passed where update data is expected: every field is present.\<close>

definition as_update_data :: "Product \<Rightarrow> update_data" where
  "as_update_data p =
     \<lparr>u_name = Some (p_name p), u_description = Some (p_description p),
      u_price = Some (p_price p), u_stock = Some (p_stock p),
      u_category = Some (p_category p)\<rparr>"

definition hasStock :: "Product \<Rightarrow> rat \<Rightarrow> bool" where
  "hasStock this quantity = (p_stock this \<ge> quantity)"

definition reduceStock :: "Product \<Rightarrow> rat \<Rightarrow> error + Product" where
  "reduceStock this quantity =
     (if \<not> hasStock this quantity then Inl (ReduceStockFailed (p_name this))
      else Inr (this\<lparr>p_stock := binary64 (p_stock this - quantity)\<rparr>))"

definition increaseStock :: "Product \<Rightarrow> rat \<Rightarrow> Product" where
  "increaseStock this quantity = this\<lparr>p_stock := binary64 (p_stock this + quantity)\<rparr>"

section \<open>Order and OrderItem (models/Order.js)\<close>

text \<open>An order item keeps the address of the product object and a copy of its price.\<close>

record OrderItem =
  oi_product :: ref
  oi_quantity :: rat
  oi_unitPrice :: rat

definition getSubtotal :: "OrderItem \<Rightarrow> rat" where
  "getSubtotal this = oi_quantity this * oi_unitPrice this"

record Order =
  o_id :: "nat option"
  o_customerId :: js_string
  o_customerName :: js_string
  o_items :: "OrderItem list"
  o_status :: js_string
  o_subtotal :: rat
  o_discount :: rat
  o_total :: rat

definition STATUS :: "js_string list" where
  "STATUS = map utf16 [''PENDING'', ''PROCESSING'', ''COMPLETED'', ''CANCELLED'']"

definition Order_new :: "nat option \<Rightarrow> js_string \<Rightarrow> js_string \<Rightarrow> Order" where
  "Order_new i customerId customerName =
     \<lparr>o_id = i, o_customerId = customerId, o_customerName = customerName, o_items = [],
      o_status = utf16 ''PENDING'', o_subtotal = 0, o_discount = 0, o_total = 0\<rparr>"

definition recalculateTotal :: "Order \<Rightarrow> Order" where
  "recalculateTotal this =
     (let sub = foldl (\<lambda>sum item. sum + getSubtotal item) 0 (o_items this)
      in this\<lparr>o_subtotal := sub, o_total := max 0 (sub - o_discount this)\<rparr>)"

text \<open>\<open>addItem(product, quantity)\<close>: \<open>h\<close> is the heap the price is read from.\<close>

definition addItem :: "(ref \<Rightarrow> Product) \<Rightarrow> Order \<Rightarrow> ref \<Rightarrow> rat \<Rightarrow> Order" where
  "addItem h this product quantity =
     recalculateTotal
       (this\<lparr>o_items := o_items this @
          [\<lparr>oi_product = product, oi_quantity = quantity,
            oi_unitPrice = p_price (h product)\<rparr>]\<rparr>)"

definition removeItem :: "(ref \<Rightarrow> Product) \<Rightarrow> Order \<Rightarrow> nat \<Rightarrow> Order" where
  "removeItem h this productId =
     recalculateTotal
       (this\<lparr>o_items :=
          filter (\<lambda>item. p_id (h (oi_product item)) \<noteq> Some productId) (o_items this)\<rparr>)"

definition applyDiscount :: "Order \<Rightarrow> rat \<Rightarrow> Order" where
  "applyDiscount this discountAmount = recalculateTotal (this\<lparr>o_discount := discountAmount\<rparr>)"

definition updateStatus :: "Order \<Rightarrow> js_string \<Rightarrow> error + Order" where
  "updateStatus this newStatus =
     (if newStatus \<notin> set STATUS then Inl (InvalidStatus newStatus)
      else Inr (this\<lparr>o_status := newStatus\<rparr>))"

definition canBeCancelled :: "Order \<Rightarrow> bool" where
  "canBeCancelled this =
     (o_status this = utf16 ''PENDING'' \<or> o_status this = utf16 ''PROCESSING'')"

definition cancel :: "Order \<Rightarrow> error + Order" where
  "cancel this =
     (if \<not> canBeCancelled this then Inl (CannotCancel (o_status this))
      else Inr (this\<lparr>o_status := utf16 ''CANCELLED''\<rparr>))"

text \<open>The plain objects built by \<open>toJSON\<close>; a product's is a copy of its fields.\<close>

record OrderItemJSON =
  j_productId :: "nat option"
  j_productName :: js_string
  j_quantity :: rat
  j_unitPrice :: rat
  j_subtotal :: rat

record OrderJSON =
  oj_id :: "nat option"
  oj_customerId :: js_string
  oj_customerName :: js_string
  oj_items :: "OrderItemJSON list"
  oj_status :: js_string
  oj_subtotal :: rat
  oj_discount :: rat
  oj_total :: rat

definition OrderItem_toJSON :: "(ref \<Rightarrow> Product) \<Rightarrow> OrderItem \<Rightarrow> OrderItemJSON" where
  "OrderItem_toJSON h this =
     \<lparr>j_productId = p_id (h (oi_product this)), j_productName = p_name (h (oi_product this)),
      j_quantity = oi_quantity this, j_unitPrice = oi_unitPrice this,
      j_subtotal = getSubtotal this\<rparr>"

definition Order_toJSON :: "(ref \<Rightarrow> Product) \<Rightarrow> Order \<Rightarrow> OrderJSON" where
  "Order_toJSON h this =
     \<lparr>oj_id = o_id this, oj_customerId = o_customerId this,
      oj_customerName = o_customerName this,
      oj_items = map (OrderItem_toJSON h) (o_items this), oj_status = o_status this,
      oj_subtotal = o_subtotal this, oj_discount = o_discount this,
      oj_total = o_total this\<rparr>"

section \<open>Discount strategies (strategies/DiscountStrategies.js)\<close>

datatype discount_strategy =
    IDiscountStrategy
  | NoDiscountStrategy
  | PercentageDiscountStrategy rat
  | FixedAmountDiscountStrategy rat
  | TieredDiscountStrategy
  | FirstOrderDiscountStrategy rat
  | BlackFridayDiscountStrategy
  | CouponDiscountStrategy js_string rat rat

definition PercentageDiscountStrategy_new :: "rat \<Rightarrow> error + discount_strategy" where
  "PercentageDiscountStrategy_new percentage =
     (if percentage < 0 \<or> percentage > 100 then Inl InvalidPercentage
      else Inr (PercentageDiscountStrategy percentage))"

definition FixedAmountDiscountStrategy_new :: "rat \<Rightarrow> error + discount_strategy" where
  "FixedAmountDiscountStrategy_new amount =
     (if amount < 0 then Inl NegativeAmount else Inr (FixedAmountDiscountStrategy amount))"

definition tiers :: "(rat \<times> rat) list" where
  "tiers = [(1000, 15), (500, 10), (200, 5), (0, 0)]"

fun calculate :: "discount_strategy \<Rightarrow> rat \<Rightarrow> error + rat" where
  "calculate IDiscountStrategy orderTotal = Inl (NotImplemented ''calculate'')"
| "calculate NoDiscountStrategy orderTotal = Inr 0"
| "calculate (PercentageDiscountStrategy percentage) orderTotal =
     Inr ((orderTotal * percentage) / 100)"
| "calculate (FixedAmountDiscountStrategy amount) orderTotal = Inr (min amount orderTotal)"
| "calculate TieredDiscountStrategy orderTotal =
     (case find (\<lambda>t. orderTotal \<ge> fst t) tiers of
        None \<Rightarrow> Inl TypeError
      | Some tier \<Rightarrow> Inr ((orderTotal * snd tier) / 100))"
| "calculate (FirstOrderDiscountStrategy percentage) orderTotal =
     Inr ((orderTotal * percentage) / 100)"
| "calculate BlackFridayDiscountStrategy orderTotal = Inr ((orderTotal * 30) / 100)"
| "calculate (CouponDiscountStrategy couponCode discountPercentage minOrderValue) orderTotal =
     (if orderTotal < minOrderValue then Inr 0
      else Inr ((orderTotal * discountPercentage) / 100))"

section \<open>Events and listeners (observers/)\<close>

text \<open>The four events that the program publishes, each with its data.\<close>

datatype event =
    PRODUCT_LOW_STOCK Product
  | ORDER_CREATED OrderJSON
  | ORDER_STATUS_CHANGED nat js_string js_string OrderJSON
  | ORDER_CANCELLED OrderJSON

record statistics =
  ordersCreated :: nat
  ordersCompleted :: nat
  ordersCancelled :: nat
  totalRevenue :: rat
  lowStockAlerts :: nat

text \<open>
  The listener classes: the base class \<open>IObserver\<close>, whose two methods throw, and its four
  subclasses with their fields.
\<close>

datatype observer =
    IObserver
  | EmailNotificationObserver
  | AuditLogObserver "event list"
  | StatisticsObserver statistics
  | PushNotificationObserver

definition StatisticsObserver_new :: observer where
  "StatisticsObserver_new =
     StatisticsObserver \<lparr>ordersCreated = 0, ordersCompleted = 0, ordersCancelled = 0,
                         totalRevenue = 0, lowStockAlerts = 0\<rparr>"

fun StatisticsObserver_update :: "statistics \<Rightarrow> event \<Rightarrow> statistics" where
  "StatisticsObserver_update st (ORDER_CREATED d) = st\<lparr>ordersCreated := ordersCreated st + 1\<rparr>"
| "StatisticsObserver_update st (ORDER_STATUS_CHANGED orderId oldStatus newStatus order) =
     (if newStatus = utf16 ''COMPLETED''
      then st\<lparr>ordersCompleted := ordersCompleted st + 1,
              totalRevenue := totalRevenue st + oj_total order\<rparr>
      else st)"
| "StatisticsObserver_update st (ORDER_CANCELLED d) =
     st\<lparr>ordersCancelled := ordersCancelled st + 1\<rparr>"
| "StatisticsObserver_update st (PRODUCT_LOW_STOCK d) =
     st\<lparr>lowStockAlerts := lowStockAlerts st + 1\<rparr>"

text \<open>
  Dynamic dispatch of \<open>observer.update(event)\<close> and \<open>observer.getName()\<close>. A call of
  \<open>update\<close> gives the listener as the call leaves it and the value it threw, if any: on the
  four events none of the subclasses throws, and the base class throws at once.
\<close>

fun Observer_update :: "observer \<Rightarrow> event \<Rightarrow> observer \<times> error option" where
  "Observer_update IObserver e = (IObserver, Some (NotImplemented ''update''))"
| "Observer_update EmailNotificationObserver e = (EmailNotificationObserver, None)"
| "Observer_update (AuditLogObserver logs) e = (AuditLogObserver (logs @ [e]), None)"
| "Observer_update (StatisticsObserver st) e =
     (StatisticsObserver (StatisticsObserver_update st e), None)"
| "Observer_update PushNotificationObserver e = (PushNotificationObserver, None)"

fun Observer_getName :: "observer \<Rightarrow> error + js_string" where
  "Observer_getName IObserver = Inl (NotImplemented ''getName'')"
| "Observer_getName EmailNotificationObserver = Inr (utf16 ''EmailNotificationObserver'')"
| "Observer_getName (AuditLogObserver logs) = Inr (utf16 ''AuditLogObserver'')"
| "Observer_getName (StatisticsObserver st) = Inr (utf16 ''StatisticsObserver'')"
| "Observer_getName PushNotificationObserver = Inr (utf16 ''PushNotificationObserver'')"

section \<open>The notification bus (observers/EventSubject.js)\<close>

text \<open>
  What the bus does that is visible from outside: \<open>Notify e\<close> is a call of \<open>notify\<close>,
  \<open>Updated r e\<close> a call of \<open>update\<close> on the listener at address \<open>r\<close> that returned, and
  \<open>UpdateFailed r e err\<close> one that threw \<open>err\<close>.
\<close>

datatype effect =
    Notify event
  | Updated ref event
  | UpdateFailed ref event error

text \<open>
  The bus holds the addresses of its listeners, in attachment order. \<open>objects\<close> is the heap
  of listener objects. The bus is polymorphic in the class of the listeners: the methods
  \<open>update\<close> and \<open>getName\<close> found by dynamic dispatch are parameters of its operations.
\<close>

record 'o EventSubject =
  observers :: "ref list"
  objects :: "ref \<Rightarrow> 'o"
  trace :: "effect list"

definition EventSubject_new :: "(ref \<Rightarrow> 'o) \<Rightarrow> 'o EventSubject" where
  "EventSubject_new h = \<lparr>observers = [], objects = h, trace = []\<rparr>"

text \<open>
  \<open>attach\<close> pushes the listener and then logs its name: when \<open>getName\<close> throws, the
  listener is attached all the same.
\<close>

definition attach ::
  "('o \<Rightarrow> error + js_string) \<Rightarrow> 'o EventSubject \<Rightarrow> ref \<Rightarrow> 'o EventSubject \<times> error option" where
  "attach getName this observer =
     (if observer \<in> set (observers this) then (this, None)
      else (this\<lparr>observers := observers this @ [observer]\<rparr>,
            case getName (objects this observer) of Inl err \<Rightarrow> Some err | Inr n \<Rightarrow> None))"

definition detach ::
  "('o \<Rightarrow> error + js_string) \<Rightarrow> 'o EventSubject \<Rightarrow> ref \<Rightarrow> 'o EventSubject \<times> error option" where
  "detach getName this observer =
     (if observer \<in> set (observers this)
      then (this\<lparr>observers := remove1 observer (observers this)\<rparr>,
            case getName (objects this observer) of Inl err \<Rightarrow> Some err | Inr n \<Rightarrow> None)
      else (this, None))"

text \<open>
  The \<open>forEach\<close> of \<open>notify\<close>. A value thrown by \<open>update\<close> is caught, whatever \<open>update\<close> had
  done to the listener before. The handler logs \<open>observer.getName()\<close> and \<open>error.message\<close>,
  in this order: a value thrown by \<open>getName\<close> leaves the handler, and so does the
  \<open>TypeError\<close> of reading \<open>message\<close> when the caught value is \<open>null\<close> or \<open>undefined\<close>; either
  ends the loop and leaves \<open>notify\<close>.
\<close>

fun notify_forEach ::
  "('o \<Rightarrow> event \<Rightarrow> 'o \<times> error option) \<Rightarrow> ('o \<Rightarrow> error + js_string) \<Rightarrow> ref list \<Rightarrow> event \<Rightarrow>
     'o EventSubject \<Rightarrow> 'o EventSubject \<times> error option" where
  "notify_forEach update getName [] e this = (this, None)"
| "notify_forEach update getName (r # rs) e this =
     (case update (objects this r) e of
        (ob, None) \<Rightarrow>
          notify_forEach update getName rs e
            (this\<lparr>objects := (objects this)(r := ob), trace := trace this @ [Updated r e]\<rparr>)
      | (ob, Some err) \<Rightarrow>
          (case getName ob of
             Inl err2 \<Rightarrow>
               (this\<lparr>objects := (objects this)(r := ob),
                     trace := trace this @ [UpdateFailed r e err]\<rparr>, Some err2)
           | Inr n \<Rightarrow>
               if err = Nullish
               then (this\<lparr>objects := (objects this)(r := ob),
                          trace := trace this @ [UpdateFailed r e err]\<rparr>, Some TypeError)
               else notify_forEach update getName rs e
                      (this\<lparr>objects := (objects this)(r := ob),
                            trace := trace this @ [UpdateFailed r e err]\<rparr>)))"

definition notify ::
  "('o \<Rightarrow> event \<Rightarrow> 'o \<times> error option) \<Rightarrow> ('o \<Rightarrow> error + js_string) \<Rightarrow> 'o EventSubject \<Rightarrow>
     event \<Rightarrow> 'o EventSubject \<times> error option" where
  "notify update getName this e =
     notify_forEach update getName (observers this) e (this\<lparr>trace := trace this @ [Notify e]\<rparr>)"

definition getObserversCount :: "'o EventSubject \<Rightarrow> nat" where
  "getObserversCount this = length (observers this)"

definition clearObservers :: "'o EventSubject \<Rightarrow> 'o EventSubject" where
  "clearObservers this = this\<lparr>observers := []\<rparr>"

section \<open>The store (config/Database.js and the JavaScript heap)\<close>

text \<open>
  \<open>products\<close> and \<open>orders\<close> are the two \<open>Map\<close>s of the database singleton, in insertion
  order (\<open>Map.set\<close> is \<open>AList.update\<close>, \<open>Map.delete\<close> is \<open>AList.delete\<close>). The product
  map holds addresses into \<open>heap\<close>; \<open>next_ref\<close> is the next free address. An order object
  is reached through the order map only and is stored there by value. \<open>eventSubject\<close> and
  \<open>discountStrategy\<close> are the fields of the one \<open>OrderFacade\<close>.
\<close>

record system =
  products :: "(nat \<times> ref) list"
  orders :: "(nat \<times> Order) list"
  counters_products :: nat
  counters_orders :: nat
  heap :: "ref \<Rightarrow> Product"
  next_ref :: ref
  eventSubject :: "observer EventSubject"
  discountStrategy :: discount_strategy

definition getNextProductId :: "system \<Rightarrow> system \<times> nat" where
  "getNextProductId s =
     (s\<lparr>counters_products := counters_products s + 1\<rparr>, counters_products s + 1)"

definition getNextOrderId :: "system \<Rightarrow> system \<times> nat" where
  "getNextOrderId s = (s\<lparr>counters_orders := counters_orders s + 1\<rparr>, counters_orders s + 1)"

section \<open>Repositories (repositories/)\<close>

text \<open>The argument of \<open>findById\<close> is a number or \<open>null\<close>; \<open>Map.get(null)\<close> finds nothing.\<close>

definition ProductRepository_findById :: "system \<Rightarrow> nat option \<Rightarrow> ref option" where
  "ProductRepository_findById s i =
     (case i of None \<Rightarrow> None | Some k \<Rightarrow> map_of (products s) k)"

definition ProductRepository_findAll :: "system \<Rightarrow> ref list" where
  "ProductRepository_findAll s = map snd (products s)"

text \<open>
  \<open>existsByName\<close> compares the names after \<open>String.prototype.toLowerCase\<close>, the
  parameter \<open>toLowerCase\<close>.
\<close>

definition existsByName :: "(js_string \<Rightarrow> js_string) \<Rightarrow> system \<Rightarrow> js_string \<Rightarrow> bool" where
  "existsByName toLowerCase s name =
     list_ex (\<lambda>p. toLowerCase (p_name (heap s p)) = toLowerCase name)
       (ProductRepository_findAll s)"

definition findLowStock :: "system \<Rightarrow> rat \<Rightarrow> ref list" where
  "findLowStock s threshold = filter (\<lambda>p. p_stock (heap s p) < threshold) (ProductRepository_findAll s)"

definition ProductRepository_create :: "system \<Rightarrow> ref \<Rightarrow> system \<times> ref" where
  "ProductRepository_create s product =
     (case getNextProductId s of
        (s1, i) \<Rightarrow>
          (s1\<lparr>heap := (heap s1)(product := (heap s1 product)\<lparr>p_id := Some i\<rparr>),
              products := AList.update i product (products s1)\<rparr>, product))"

definition ProductRepository_update ::
  "system \<Rightarrow> nat option \<Rightarrow> update_data \<Rightarrow> system \<times> (error + ref)" where
  "ProductRepository_update s i updatedData =
     (case ProductRepository_findById s i of
        None \<Rightarrow> (s, Inl (ProductIdNotFound i))
      | Some product \<Rightarrow>
          (s\<lparr>heap := (heap s)(product := Product_update (heap s product) updatedData),
             products := AList.update (the i) product (products s)\<rparr>, Inr product))"

definition ProductRepository_delete :: "system \<Rightarrow> nat option \<Rightarrow> system \<times> (error + bool)" where
  "ProductRepository_delete s i =
     (case ProductRepository_findById s i of
        None \<Rightarrow> (s, Inl (ProductIdNotFound i))
      | Some product \<Rightarrow> (s\<lparr>products := AList.delete (the i) (products s)\<rparr>, Inr True))"

definition OrderRepository_findById :: "system \<Rightarrow> nat \<Rightarrow> Order option" where
  "OrderRepository_findById s i = map_of (orders s) i"

definition OrderRepository_create :: "system \<Rightarrow> Order \<Rightarrow> system \<times> Order" where
  "OrderRepository_create s order =
     (case getNextOrderId s of
        (s1, i) \<Rightarrow>
          (s1\<lparr>orders := AList.update i (order\<lparr>o_id := Some i\<rparr>) (orders s1)\<rparr>,
           order\<lparr>o_id := Some i\<rparr>))"

definition OrderRepository_update :: "system \<Rightarrow> nat \<Rightarrow> Order \<Rightarrow> system \<times> (error + Order)" where
  "OrderRepository_update s i order =
     (case OrderRepository_findById s i of
        None \<Rightarrow> (s, Inl (OrderIdNotFound i))
      | Some existingOrder \<Rightarrow> (s\<lparr>orders := AList.update i order (orders s)\<rparr>, Inr order))"

section \<open>Validation strategies (strategies/ValidationStrategies.js)\<close>

record item_data =
  productId :: nat
  quantity :: rat

record order_data =
  customerId :: js_string
  customerName :: js_string
  items :: "item_data list option"

definition Number_isInteger :: "rat \<Rightarrow> bool" where
  "Number_isInteger x = (of_int \<lfloor>x\<rfloor> = x)"

text \<open>The body of the \<open>forEach\<close> over the items; \<open>index\<close> counts from 0.\<close>

definition item_errors :: "nat \<Rightarrow> item_data \<Rightarrow> violation list" where
  "item_errors index item =
     (if productId item = 0 then [ItemProductIdRequired (index + 1)] else []) @
     (if quantity item = 0 \<or> quantity item \<le> 0 then [ItemQuantityNotPositive (index + 1)]
      else []) @
     (if \<not> Number_isInteger (quantity item) then [ItemQuantityNotInteger (index + 1)] else [])"

definition OrderValidationStrategy_validate :: "order_data \<Rightarrow> violation list" where
  "OrderValidationStrategy_validate orderData =
     (if customerId orderData = [] then [CustomerIdRequired] else []) @
     (if customerName orderData = [] \<or> length (trim (customerName orderData)) = 0
      then [CustomerNameRequired]
      else if length (customerName orderData) < 3 then [CustomerNameTooShort] else []) @
     (case items orderData of
        None \<Rightarrow> [ItemsRequired]
      | Some its \<Rightarrow>
          if length its = 0 then [ItemsEmpty]
          else concat (map (\<lambda>(index, item). item_errors index item) (enumerate 0 its)))"

record product_data =
  pd_name :: js_string
  pd_description :: js_string
  pd_price :: "rat option"
  pd_stock :: "rat option"
  pd_category :: js_string

definition ProductValidationStrategy_validate :: "product_data \<Rightarrow> violation list" where
  "ProductValidationStrategy_validate productData =
     (if pd_name productData = [] \<or> length (trim (pd_name productData)) = 0
      then [ProductNameRequired]
      else if length (pd_name productData) < 3 then [ProductNameTooShort]
      else if length (pd_name productData) > 100 then [ProductNameTooLong] else []) @
     (case pd_price productData of
        None \<Rightarrow> [PriceRequired]
      | Some price \<Rightarrow>
          if price < 0 then [PriceNegative] else if price = 0 then [PriceZero] else []) @
     (case pd_stock productData of
        None \<Rightarrow> [StockRequired]
      | Some stock \<Rightarrow>
          if \<not> Number_isInteger stock then [StockNotInteger]
          else if stock < 0 then [StockNegative] else []) @
     (if pd_category productData = [] \<or> length (trim (pd_category productData)) = 0
      then [CategoryRequired] else []) @
     (if pd_description productData \<noteq> [] \<and> length (pd_description productData) > 500
      then [DescriptionTooLong] else [])"

definition ProductUpdateValidationStrategy_validate :: "update_data \<Rightarrow> violation list" where
  "ProductUpdateValidationStrategy_validate updateData =
     (case u_name updateData of
        None \<Rightarrow> []
      | Some name \<Rightarrow>
          if length (trim name) = 0 then [UpdateNameEmpty]
          else if length name < 3 then [UpdateNameTooShort]
          else if length name > 100 then [UpdateNameTooLong] else []) @
     (case u_price updateData of
        None \<Rightarrow> []
      | Some price \<Rightarrow>
          if price < 0 then [PriceNegative] else if price = 0 then [PriceZero] else []) @
     (case u_stock updateData of
        None \<Rightarrow> []
      | Some stock \<Rightarrow>
          if \<not> Number_isInteger stock then [StockNotInteger]
          else if stock < 0 then [StockNegative] else []) @
     (case u_category updateData of
        None \<Rightarrow> []
      | Some category \<Rightarrow> if length (trim category) = 0 then [UpdateCategoryEmpty] else []) @
     (case u_description updateData of
        None \<Rightarrow> []
      | Some description \<Rightarrow> if length description > 500 then [DescriptionTooLong] else [])"

section \<open>The order orchestrator (facades/OrderFacade.js)\<close>

text \<open>
  The body of every method of the facade that follows is in a \<open>try\<close> whose handler is
  \<open>console.error(..., error.message); throw error\<close>: the caught value is thrown again,
  unless it is \<open>null\<close> or \<open>undefined\<close>, when reading \<open>message\<close> throws a
  \<open>TypeError\<close> in its place. Nothing is undone.
\<close>

definition rethrow :: "system \<times> (error + 'a) \<Rightarrow> system \<times> (error + 'a)" where
  "rethrow r =
     (case r of
        (s, Inl err) \<Rightarrow> (s, Inl (if err = Nullish then TypeError else err))
      | (s, Inr v) \<Rightarrow> (s, Inr v))"

definition attachObserver :: "system \<Rightarrow> ref \<Rightarrow> system \<times> error option" where
  "attachObserver s observer =
     (case attach Observer_getName (eventSubject s) observer of
        (b, res) \<Rightarrow> (s\<lparr>eventSubject := b\<rparr>, res))"

definition setDiscountStrategy :: "system \<Rightarrow> discount_strategy \<Rightarrow> system \<times> error option" where
  "setDiscountStrategy s strategy =
     (s\<lparr>discountStrategy := strategy\<rparr>,
      if strategy = IDiscountStrategy then Some (NotImplemented ''getDescription'') else None)"

text \<open>\<open>this.eventSubject.notify(event)\<close> with the listener classes of this program.\<close>

definition eventSubject_notify :: "system \<Rightarrow> event \<Rightarrow> system \<times> error option" where
  "eventSubject_notify s e =
     (case notify Observer_update Observer_getName (eventSubject s) e of
        (b, res) \<Rightarrow> (s\<lparr>eventSubject := b\<rparr>, res))"

text \<open>
  The loop over \<open>orderData.items\<close> of \<open>createOrder\<close>. The state reached so far is returned
  with an error too: nothing is rolled back.
\<close>

fun createOrder_items :: "system \<Rightarrow> Order \<Rightarrow> item_data list \<Rightarrow> system \<times> (error + Order)" where
  "createOrder_items s order [] = (s, Inr order)"
| "createOrder_items s order (item # rest) =
     (case ProductRepository_findById s (Some (productId item)) of
        None \<Rightarrow> (s, Inl (ProductNotFound (productId item)))
      | Some product \<Rightarrow>
          if \<not> hasStock (heap s product) (quantity item)
          then (s, Inl (InsufficientStock (p_name (heap s product)) (p_stock (heap s product))
                          (quantity item)))
          else
            (case reduceStock (heap s product) (quantity item) of
               Inl err \<Rightarrow> (s, Inl err)
             | Inr reduced \<Rightarrow>
                 (case ProductRepository_update (s\<lparr>heap := (heap s)(product := reduced)\<rparr>)
                         (p_id reduced) (as_update_data reduced) of
                    (s2, Inl err) \<Rightarrow> (s2, Inl err)
                  | (s2, Inr u) \<Rightarrow>
                      if p_stock (heap s2 product) < 10
                      then (case eventSubject_notify s2 (PRODUCT_LOW_STOCK (heap s2 product)) of
                              (s3, Some err) \<Rightarrow> (s3, Inl err)
                            | (s3, None) \<Rightarrow>
                                createOrder_items s3
                                  (addItem (heap s) order product (quantity item)) rest)
                      else createOrder_items s2
                             (addItem (heap s) order product (quantity item)) rest)))"

definition OrderFacade_createOrder :: "system \<Rightarrow> order_data \<Rightarrow> system \<times> (error + Order)" where
  "OrderFacade_createOrder s orderData = rethrow
     (if customerId orderData = [] \<or> customerName orderData = []
      then (s, Inl CustomerDataRequired)
      else
        (case items orderData of
           None \<Rightarrow> (s, Inl OrderItemsRequired)
         | Some its \<Rightarrow>
             if length its = 0 then (s, Inl OrderItemsRequired)
             else
               (case createOrder_items s
                       (Order_new None (customerId orderData) (customerName orderData)) its of
                  (s1, Inl err) \<Rightarrow> (s1, Inl err)
                | (s1, Inr order) \<Rightarrow>
                    (case calculate (discountStrategy s1) (o_subtotal order) of
                       Inl err \<Rightarrow> (s1, Inl err)
                     | Inr discount \<Rightarrow>
                         (case OrderRepository_create s1 (applyDiscount order discount) of
                            (s2, savedOrder) \<Rightarrow>
                              (case eventSubject_notify s2
                                      (ORDER_CREATED (Order_toJSON (heap s2) savedOrder)) of
                                 (s3, Some err) \<Rightarrow> (s3, Inl err)
                               | (s3, None) \<Rightarrow> (s3, Inr savedOrder)))))))"

definition OrderFacade_updateOrderStatus ::
  "system \<Rightarrow> nat \<Rightarrow> js_string \<Rightarrow> system \<times> (error + Order)" where
  "OrderFacade_updateOrderStatus s orderId newStatus = rethrow
     (case OrderRepository_findById s orderId of
        None \<Rightarrow> (s, Inl (OrderNotFound orderId))
      | Some order \<Rightarrow>
          (case updateStatus order newStatus of
             Inl err \<Rightarrow> (s, Inl err)
           | Inr order1 \<Rightarrow>
               (case OrderRepository_update s orderId order1 of
                  (s1, Inl err) \<Rightarrow> (s1, Inl err)
                | (s1, Inr u) \<Rightarrow>
                    (case eventSubject_notify s1
                            (ORDER_STATUS_CHANGED orderId (o_status order) newStatus
                               (Order_toJSON (heap s1) order1)) of
                       (s2, Some err) \<Rightarrow> (s2, Inl err)
                     | (s2, None) \<Rightarrow> (s2, Inr order1)))))"

text \<open>The loop over \<open>order.items\<close> of \<open>cancelOrder\<close>: a product that is gone is skipped.\<close>

fun cancelOrder_items :: "system \<Rightarrow> OrderItem list \<Rightarrow> system \<times> error option" where
  "cancelOrder_items s [] = (s, None)"
| "cancelOrder_items s (item # rest) =
     (case ProductRepository_findById s (p_id (heap s (oi_product item))) of
        None \<Rightarrow> cancelOrder_items s rest
      | Some product \<Rightarrow>
          (case ProductRepository_update
                  (s\<lparr>heap := (heap s)(product := increaseStock (heap s product) (oi_quantity item))\<rparr>)
                  (p_id (heap s product))
                  (as_update_data (increaseStock (heap s product) (oi_quantity item))) of
             (s2, Inl err) \<Rightarrow> (s2, Some err)
           | (s2, Inr u) \<Rightarrow> cancelOrder_items s2 rest))"

definition OrderFacade_cancelOrder :: "system \<Rightarrow> nat \<Rightarrow> system \<times> (error + Order)" where
  "OrderFacade_cancelOrder s orderId = rethrow
     (case OrderRepository_findById s orderId of
        None \<Rightarrow> (s, Inl (OrderNotFound orderId))
      | Some order \<Rightarrow>
          if \<not> canBeCancelled order then (s, Inl (CannotCancel (o_status order)))
          else
            (case cancelOrder_items s (o_items order) of
               (s1, Some err) \<Rightarrow> (s1, Inl err)
             | (s1, None) \<Rightarrow>
                 (case cancel order of
                    Inl err \<Rightarrow> (s1, Inl err)
                  | Inr order1 \<Rightarrow>
                      (case OrderRepository_update s1 orderId order1 of
                         (s2, Inl err) \<Rightarrow> (s2, Inl err)
                       | (s2, Inr u) \<Rightarrow>
                           (case eventSubject_notify s2
                                   (ORDER_CANCELLED (Order_toJSON (heap s2) order1)) of
                              (s3, Some err) \<Rightarrow> (s3, Inl err)
                            | (s3, None) \<Rightarrow> (s3, Inr order1))))))"

section \<open>Services (services/)\<close>

definition OrderService_createOrder :: "system \<Rightarrow> order_data \<Rightarrow> system \<times> (error + Order)" where
  "OrderService_createOrder s orderData =
     (if OrderValidationStrategy_validate orderData \<noteq> []
      then (s, Inl (ValidationFailed (OrderValidationStrategy_validate orderData)))
      else OrderFacade_createOrder s orderData)"

text \<open>
  \<open>createProduct\<close>: \<open>new Product(null, ...)\<close> takes the next free address, and the
  repository gives the object its id and stores its address.
\<close>

definition createProduct ::
  "(js_string \<Rightarrow> js_string) \<Rightarrow> system \<Rightarrow> product_data \<Rightarrow> system \<times> (error + ref)" where
  "createProduct toLowerCase s productData =
     (if ProductValidationStrategy_validate productData \<noteq> []
      then (s, Inl (ValidationFailed (ProductValidationStrategy_validate productData)))
      else if existsByName toLowerCase s (pd_name productData)
      then (s, Inl (ProductNameExists (pd_name productData)))
      else
        (case ProductRepository_create
                (s\<lparr>heap := (heap s)(next_ref s :=
                      \<lparr>p_id = None, p_name = pd_name productData,
                       p_description = pd_description productData,
                       p_price = the (pd_price productData),
                       p_stock = the (pd_stock productData),
                       p_category = pd_category productData\<rparr>),
                   next_ref := next_ref s + 1\<rparr>)
                (next_ref s) of
           (s1, product) \<Rightarrow> (s1, Inr product)))"

definition getProductById :: "system \<Rightarrow> nat option \<Rightarrow> error + ref" where
  "getProductById s i =
     (case ProductRepository_findById s i of
        None \<Rightarrow> Inl (ProductIdNotFound i)
      | Some product \<Rightarrow> Inr product)"

definition updateProduct ::
  "(js_string \<Rightarrow> js_string) \<Rightarrow> system \<Rightarrow> nat option \<Rightarrow> update_data \<Rightarrow>
     system \<times> (error + ref)" where
  "updateProduct toLowerCase s i updateData =
     (if ProductUpdateValidationStrategy_validate updateData \<noteq> []
      then (s, Inl (ValidationFailed (ProductUpdateValidationStrategy_validate updateData)))
      else
        (case getProductById s i of
           Inl err \<Rightarrow> (s, Inl err)
         | Inr product \<Rightarrow>
             if truthy_str (u_name updateData) \<and> the (u_name updateData) \<noteq> p_name (heap s product)
                \<and> existsByName toLowerCase s (the (u_name updateData))
             then (s, Inl (ProductNameExists (the (u_name updateData))))
             else ProductRepository_update s i updateData))"

definition deleteProduct :: "system \<Rightarrow> nat option \<Rightarrow> system \<times> (error + bool)" where
  "deleteProduct s i =
     (case getProductById s i of
        Inl err \<Rightarrow> (s, Inl err)
      | Inr product \<Rightarrow> ProductRepository_delete s i)"

section \<open>Vocabulary of the properties\<close>



text \<open>
  The store is well formed when every product object that the product map reaches carries
  the id it is stored under; the addresses in use are below \<open>next_ref\<close>.
\<close>

definition wf_store :: "system \<Rightarrow> bool" where
  "wf_store s = (\<forall>k r. map_of (products s) k = Some r \<longrightarrow> p_id (heap s r) = Some k)"

definition refs_allocated :: "system \<Rightarrow> bool" where
  "refs_allocated s = (\<forall>k r. map_of (products s) k = Some r \<longrightarrow> r < next_ref s)"





definition low_stock_for :: "nat \<Rightarrow> event \<Rightarrow> bool" where
  "low_stock_for k e = (case e of PRODUCT_LOW_STOCK p \<Rightarrow> p_id p = Some k | _ \<Rightarrow> False)"

section \<open>Example states\<close>

text \<open>
  A bus with a listener of the base class and an audit logger, as three calls of \<open>attach\<close>
  leave it: the base-class listener (whose \<open>attach\<close> throws after the listener is in the
  list), then the audit logger, and for \<open>twice_attached\<close> the audit logger once more.
\<close>

definition two_listeners :: "observer EventSubject" where
  "two_listeners =
     fst (attach Observer_getName
            (fst (attach Observer_getName
                    (EventSubject_new ((\<lambda>r. IObserver)(1 := AuditLogObserver []))) 0)) 1)"

definition twice_attached :: "observer EventSubject" where
  "twice_attached = fst (attach Observer_getName two_listeners 1)"

definition blank_product :: Product where
  "blank_product =
     \<lparr>p_id = None, p_name = [], p_description = [], p_price = 0, p_stock = 0,
      p_category = []\<rparr>"

text \<open>
  The state when the services have been constructed: an empty database and the four
  listeners attached.
\<close>

definition fresh_system :: system where
  "fresh_system =
     \<lparr>products = [], orders = [], counters_products = 0, counters_orders = 0,
      heap = (\<lambda>r. blank_product), next_ref = 0,
      eventSubject =
        fst (attach Observer_getName
          (fst (attach Observer_getName
            (fst (attach Observer_getName
              (fst (attach Observer_getName
                (EventSubject_new
                   ((\<lambda>r. IObserver)(0 := EmailNotificationObserver, 1 := AuditLogObserver [],
                      2 := StatisticsObserver_new, 3 := PushNotificationObserver))) 0)) 1)) 2)) 3),
      discountStrategy = NoDiscountStrategy\<rparr>"

text \<open>
  A shop with two products (a mouse with 8 in stock, a keyboard with 3) and the four
  listeners that \<open>OrderService\<close> attaches.
\<close>

definition demo_shop :: system where
  "demo_shop =
     \<lparr>products = [(1, 0), (2, 1)], orders = [], counters_products = 2, counters_orders = 0,
      heap = (\<lambda>r. blank_product)
        (0 := \<lparr>p_id = Some 1, p_name = utf16 ''Mouse'', p_description = [], p_price = 10,
               p_stock = 8, p_category = utf16 ''Perifericos''\<rparr>,
         1 := \<lparr>p_id = Some 2, p_name = utf16 ''Teclado'', p_description = [], p_price = 5,
               p_stock = 3, p_category = utf16 ''Perifericos''\<rparr>),
      next_ref = 2,
      eventSubject = \<lparr>observers = [0, 1, 2, 3],
        objects = (\<lambda>r. IObserver)(0 := EmailNotificationObserver, 1 := AuditLogObserver [],
                     2 := StatisticsObserver_new, 3 := PushNotificationObserver),
        trace = []\<rparr>,
      discountStrategy = NoDiscountStrategy\<rparr>"

definition order_of_mouse :: order_data where
  "order_of_mouse =
     \<lparr>customerId = utf16 ''CUST001'', customerName = utf16 ''Ana Lima'',
      items = Some [\<lparr>productId = 1, quantity = 2\<rparr>]\<rparr>"


text \<open>
  \<open>String.prototype.toLowerCase\<close> on the strings of code units below U+0100: the letters
  \<open>A\<close> to \<open>Z\<close> and U+00C0 to U+00DE, the multiplication sign U+00D7 apart, go to the code
  unit 32 above, and every other code unit below U+0100 stays. The examples use no other
  code unit.
\<close>

definition toLowerCase_latin1 :: "js_string \<Rightarrow> js_string" where
  "toLowerCase_latin1 s =
     map (\<lambda>c. if (65 \<le> c \<and> c \<le> 90) \<or> (192 \<le> c \<and> c \<le> 222 \<and> c \<noteq> 215) then c + 32 else c) s"

text \<open>
  A shop that sells \<open>caf\<close>\<open>e\<close> with an acute accent (U+00E9), and a request for a product
  of the same name in capitals (U+00C9).
\<close>

definition cafe_shop :: system where
  "cafe_shop =
     \<lparr>products = [(1, 0)], orders = [], counters_products = 1, counters_orders = 0,
      heap = (\<lambda>r. blank_product)
        (0 := \<lparr>p_id = Some 1, p_name = utf16 ''caf'' @ [233], p_description = [], p_price = 3,
               p_stock = 40, p_category = utf16 ''Bebidas''\<rparr>),
      next_ref = 1,
      eventSubject = \<lparr>observers = [], objects = (\<lambda>r. IObserver), trace = []\<rparr>,
      discountStrategy = NoDiscountStrategy\<rparr>"

definition cafe_upper :: product_data where
  "cafe_upper =
     \<lparr>pd_name = utf16 ''CAF'' @ [201], pd_description = [], pd_price = Some 4,
      pd_stock = Some 10, pd_category = utf16 ''Bebidas''\<rparr>"

text \<open>The shop after an order of two mice has been created and completed.\<close>

definition completed_shop :: system where
  "completed_shop =
     fst (OrderFacade_updateOrderStatus (fst (OrderFacade_createOrder demo_shop order_of_mouse))
            1 (utf16 ''COMPLETED''))"

text \<open>Requests for the validation of orders.\<close>

definition short_name_order :: order_data where
  "short_name_order =
     \<lparr>customerId = utf16 ''CUST002'', customerName = utf16 ''Al'',
      items = Some [\<lparr>productId = 1, quantity = 2\<rparr>]\<rparr>"

definition bad_order :: order_data where
  "bad_order =
     \<lparr>customerId = [], customerName = utf16 ''Al'',
      items = Some [\<lparr>productId = 0, quantity = 1\<rparr>, \<lparr>productId = 2, quantity = - 3 / 2\<rparr>]\<rparr>"

text \<open>
  Valid requests that fail behind the validation: for a product that is not in the shop,
  and for 5 keyboards when 3 are in stock.
\<close>

definition order_unknown :: order_data where
  "order_unknown =
     \<lparr>customerId = utf16 ''CUST007'', customerName = utf16 ''Rita Melo'',
      items = Some [\<lparr>productId = 9, quantity = 1\<rparr>]\<rparr>"

definition order_keyboards :: order_data where
  "order_keyboards =
     \<lparr>customerId = utf16 ''CUST008'', customerName = utf16 ''Luis Faria'',
      items = Some [\<lparr>productId = 2, quantity = 5\<rparr>]\<rparr>"

text \<open>Requests and update data for the examples about stock and product updates.\<close>

definition order_too_many :: order_data where
  "order_too_many =
     \<lparr>customerId = utf16 ''CUST003'', customerName = utf16 ''Pedro Costa'',
      items = Some [\<lparr>productId = 1, quantity = 2\<rparr>, \<lparr>productId = 2, quantity = 5\<rparr>]\<rparr>"



definition rename_mouse :: update_data where
  "rename_mouse =
     \<lparr>u_name = Some (utf16 ''Rato''), u_description = None, u_price = Some 25, u_stock = None,
      u_category = None\<rparr>"



definition mouse :: Product where
  "mouse = \<lparr>p_id = Some 1, p_name = utf16 ''Mouse'', p_description = [], p_price = 10,
               p_stock = 8, p_category = utf16 ''Perifericos''\<rparr>"

section \<open>Rounding to the nearest double\<close>

text \<open>An integer of absolute value at most \<open>2^53\<close> is a double.\<close>

lemma round_half_even_of_int: "round_half_even (of_int n) = n"
  by (simp add: round_half_even_def)


lemma exponent_of_int:
  assumes "n \<noteq> 0" and "\<bar>n\<bar> < 2 ^ 53"
  shows "exponent (of_int n) \<le> 52"
proof -
  have pos: "0 < \<bar>n\<bar>" using assms(1) by simp
  have "(2::int) ^ nat (bitlen \<bar>n\<bar> - 1) \<le> \<bar>n\<bar>"
    using bitlen_bounds [OF pos] by simp
  then have "(2::int) ^ nat (bitlen \<bar>n\<bar> - 1) < 2 ^ 53"
    using assms(2) by linarith
  then have "nat (bitlen \<bar>n\<bar> - 1) < 53"
    by (rule power_less_imp_less_exp [rotated]) simp
  then have "bitlen \<bar>n\<bar> - 1 \<le> 52" by linarith
  moreover have "1 \<le> \<bar>n\<bar>" using pos by linarith
  then have "(1::rat) \<le> \<bar>of_int n\<bar>"
    by (simp only: of_int_abs [symmetric] of_int_1_le_iff)
  moreover have "\<lfloor>\<bar>(of_int n :: rat)\<bar>\<rfloor> = \<bar>n\<bar>"
    by (metis floor_of_int of_int_abs)
  ultimately show ?thesis
    by (simp add: exponent_def)
qed

lemma binary64_of_int:
  assumes "\<bar>n\<bar> \<le> 2 ^ 53"
  shows "binary64 (of_int n) = of_int n"
proof (cases "\<bar>n\<bar> = 2 ^ 53")
  case True
  then have "n = 9007199254740992 \<or> n = - 9007199254740992" by auto
  moreover have "binary64 9007199254740992 = 9007199254740992" by code_simp
  moreover have "binary64 (- 9007199254740992) = - 9007199254740992" by code_simp
  ultimately show ?thesis by auto
next
  case False
  show ?thesis
  proof (cases "n = 0")
    case True
    then show ?thesis by (simp add: binary64_def)
  next
    case nz: False
    have e: "exponent (of_int n) \<le> 52"
      using exponent_of_int [OF nz] assms False by simp
    show ?thesis
    proof (cases "exponent (of_int n) = 52")
      case True
      then show ?thesis using nz by (simp add: binary64_def round_half_even_of_int)
    next
      case False
      then have lt: "\<not> 52 \<le> exponent (of_int n)" using e by simp
      have "(of_int n :: rat) * 2 ^ nat (52 - exponent (of_int n)) =
            of_int (n * 2 ^ nat (52 - exponent (of_int n)))"
        by simp
      then have "round_half_even (of_int n * 2 ^ nat (52 - exponent (of_int n))) =
            n * 2 ^ nat (52 - exponent (of_int n))"
        by (simp only: round_half_even_of_int)
      then show ?thesis using nz lt by (simp add: binary64_def)
    qed
  qed
qed

lemma binary64_int: "x \<in> \<int> \<Longrightarrow> \<bar>x\<bar> \<le> 2 ^ 53 \<Longrightarrow> binary64 x = x"
proof -
  assume "x \<in> \<int>" and b: "\<bar>x\<bar> \<le> 2 ^ 53"
  then obtain n where n: "x = of_int n" by (auto elim: Ints_cases)
  with b have "\<bar>of_int n :: rat\<bar> \<le> of_int (2 ^ 53)" by simp
  then have "\<bar>n\<bar> \<le> 2 ^ 53"
    by (metis of_int_abs of_int_le_iff)
  then show ?thesis using n binary64_of_int by simp
qed




lemma binary64_numeral [simp]:
  "numeral n \<le> (9007199254740992::rat) \<Longrightarrow> binary64 (numeral n) = numeral n"
  by (rule binary64_int) simp_all

lemma binary64_0 [simp]: "binary64 0 = 0"
  by (simp add: binary64_def)

lemma binary64_1 [simp]: "binary64 1 = 1"
  by (rule binary64_int) simp_all
section \<open>Evaluation of the example states\<close>

lemmas run_defs =
  OrderService_createOrder_def OrderValidationStrategy_validate_def item_errors_def
  Number_isInteger_def trim_def is_space_def utf16_def rethrow_def
  OrderFacade_createOrder_def ProductRepository_findById_def hasStock_def reduceStock_def
  ProductRepository_update_def Product_update_def as_update_data_def eventSubject_notify_def
  notify_def addItem_def recalculateTotal_def getSubtotal_def Order_new_def applyDiscount_def
  OrderRepository_create_def getNextOrderId_def Order_toJSON_def OrderItem_toJSON_def
  OrderFacade_updateOrderStatus_def OrderRepository_findById_def OrderRepository_update_def
  updateStatus_def STATUS_def StatisticsObserver_new_def
  OrderFacade_cancelOrder_def canBeCancelled_def cancel_def increaseStock_def

section \<open>The notification bus\<close>

lemma notify_forEach_objects:
  "notify_forEach u g rs e b = (b', None) \<Longrightarrow> distinct rs \<Longrightarrow>
   objects b' r = (if r \<in> set rs then fst (u (objects b r) e) else objects b r)"
  by (induction rs arbitrary: b) (auto split: prod.splits option.splits sum.splits if_splits)

lemma notify_objects:
  assumes "notify u g b e = (b', None)" and "distinct (observers b)" and "r \<in> set (observers b)"
  shows "objects b' r = fst (u (objects b r) e)"
  using notify_forEach_objects [of u g "observers b" e "b\<lparr>trace := trace b @ [Notify e]\<rparr>" b' r]
    assms
  by (simp add: notify_def)

lemma notify_forEach_error:
  "notify_forEach u g rs e b = (b', Some err) \<Longrightarrow>
   (\<exists>ob. g ob = Inl err) \<or> (\<exists>ob. snd (u ob e) = Some Nullish)"
  by (induction rs arbitrary: b)
     (auto split: prod.splits option.splits sum.splits if_splits, (metis snd_conv)+)

lemma Observer_update_error:
  "snd (Observer_update ob e) = Some err \<Longrightarrow> err = NotImplemented ''update''"
  by (cases ob) auto

lemma Observer_getName_error:
  "Observer_getName ob = Inl err \<Longrightarrow> err = NotImplemented ''getName''"
  by (cases ob) auto

lemma eventSubject_notify_error:
  "eventSubject_notify s e = (s', Some err) \<Longrightarrow> err = NotImplemented ''getName''"
  by (auto simp: eventSubject_notify_def notify_def split: prod.splits
           dest!: notify_forEach_error Observer_getName_error Observer_update_error)

text \<open>The listener list of a bus never holds a listener twice.\<close>

lemma attach_distinct:
  "distinct (observers b) \<Longrightarrow> distinct (observers (fst (attach g b r)))"
  by (simp add: attach_def)

lemma detach_distinct:
  "distinct (observers b) \<Longrightarrow> distinct (observers (fst (detach g b r)))"
  by (simp add: detach_def)

text \<open>
  Claim C7 asks that a listener that has been attached twice gets every published event
  exactly once. The second \<open>attach\<close> is a no-op, but the delivery is not what the claim
  says: on the bus with a base-class listener and, behind it, an audit logger that has
  been attached twice, \<open>notify\<close> of a low-stock event catches the error of \<open>update\<close> of the
  first listener, throws the error of its \<open>getName\<close> from the handler, and the audit
  logger has recorded nothing: the event is delivered to it zero times.
\<close>

theorem attached_twice_not_delivered:
  "twice_attached = two_listeners \<and>
   observers twice_attached = [0, 1] \<and>
   objects twice_attached 0 = IObserver \<and>
   objects twice_attached 1 = AuditLogObserver [] \<and>
   snd (notify Observer_update Observer_getName twice_attached (PRODUCT_LOW_STOCK mouse)) =
     Some (NotImplemented ''getName'') \<and>
   objects (fst (notify Observer_update Observer_getName twice_attached (PRODUCT_LOW_STOCK mouse)))
     1 = AuditLogObserver []"
  by (simp add: twice_attached_def two_listeners_def attach_def EventSubject_new_def notify_def)

text \<open>
  Claim C8 asks that \<open>notify\<close> never propagates a failure of a listener and that the
  listeners behind a failing one still get the event. The handler that catches the error
  of \<open>update\<close> calls \<open>getName\<close> on the failing listener for its log line, outside any
  \<open>try\<close>: with the base-class listener attached before an audit logger, \<open>notify\<close> throws
  the error of \<open>getName\<close> and the audit logger is never called.
\<close>

theorem notify_propagates_getName_error:
  "observers two_listeners = [0, 1] \<and>
   objects two_listeners 1 = AuditLogObserver [] \<and>
   Observer_update (objects two_listeners 0) (PRODUCT_LOW_STOCK mouse) =
     (IObserver, Some (NotImplemented ''update'')) \<and>
   snd (notify Observer_update Observer_getName two_listeners (PRODUCT_LOW_STOCK mouse)) =
     Some (NotImplemented ''getName'') \<and>
   trace (fst (notify Observer_update Observer_getName two_listeners (PRODUCT_LOW_STOCK mouse))) =
     [Notify (PRODUCT_LOW_STOCK mouse),
      UpdateFailed 0 (PRODUCT_LOW_STOCK mouse) (NotImplemented ''update'')] \<and>
   objects (fst (notify Observer_update Observer_getName two_listeners (PRODUCT_LOW_STOCK mouse)))
     1 = AuditLogObserver []"
  by (simp add: two_listeners_def attach_def EventSubject_new_def notify_def)
section \<open>Steps of the orchestrator\<close>

lemma rethrow_Inr [simp]: "rethrow r = (s', Inr v) \<longleftrightarrow> r = (s', Inr v)"
  by (auto simp: rethrow_def split: prod.splits sum.splits)

lemma fst_rethrow [simp]: "fst (rethrow r) = fst r"
  by (auto simp: rethrow_def split: prod.splits sum.splits)

lemma rethrow_Inl:
  "rethrow r = (s', Inl err) \<longleftrightarrow>
     (\<exists>err0. r = (s', Inl err0) \<and> err = (if err0 = Nullish then TypeError else err0))"
  by (auto simp: rethrow_def split: prod.splits sum.splits)

lemma rethrow_id: "snd r \<noteq> Inl Nullish \<Longrightarrow> rethrow r = r"
  by (auto simp: rethrow_def split: prod.splits sum.splits)

lemma rethrow_error [simp]:
  "err \<noteq> Nullish \<Longrightarrow> rethrow (s, Inl err) = (s, Inl err)"
  by (simp add: rethrow_def)

lemma eventSubject_notifyE:
  assumes "eventSubject_notify s e = (s', res)"
  obtains b' where "s' = s\<lparr>eventSubject := b'\<rparr>"
    and "notify Observer_update Observer_getName (eventSubject s) e = (b', res)"
  using assms by (auto simp: eventSubject_notify_def split: prod.splits)

lemma ProductRepository_updateE:
  assumes "ProductRepository_update s i d = (s', Inr u)"
  obtains k where "i = Some k" and "map_of (products s) k = Some u"
    and "s' = s\<lparr>heap := (heap s)(u := Product_update (heap s u) d),
                products := AList.update k u (products s)\<rparr>"
  using assms
  by (auto simp: ProductRepository_update_def ProductRepository_findById_def split: option.splits)









section \<open>Product names and statistics\<close>

text \<open>
  Claim C9. Whatever function \<open>toLowerCase\<close> is, a product creation request whose name
  equals, after \<open>toLowerCase\<close> on both sides, the name of a product in the store fails, and
  the store is as it was: the error is the validation error when the request is not valid,
  and the error that names the duplicate otherwise.
\<close>

theorem duplicate_name_rejected:
  assumes "(i, p) \<in> set (products s)"
    and "toLowerCase (p_name (heap s p)) = toLowerCase (pd_name productData)"
  shows "createProduct toLowerCase s productData =
           (s, Inl (if ProductValidationStrategy_validate productData \<noteq> []
                    then ValidationFailed (ProductValidationStrategy_validate productData)
                    else ProductNameExists (pd_name productData)))"
proof -
  have "existsByName toLowerCase s (pd_name productData)"
    using assms by (force simp: existsByName_def ProductRepository_findAll_def list_ex_iff)
  then show ?thesis
    by (simp add: createProduct_def)
qed

theorem duplicate_name_rejected_witness:
  "(1, 0) \<in> set (products cafe_shop) \<and>
   p_name (heap cafe_shop 0) = [99, 97, 102, 233] \<and>
   pd_name cafe_upper = [67, 65, 70, 201] \<and>
   toLowerCase_latin1 (p_name (heap cafe_shop 0)) = toLowerCase_latin1 (pd_name cafe_upper) \<and>
   createProduct toLowerCase_latin1 cafe_shop cafe_upper =
     (cafe_shop, Inl (ProductNameExists [67, 65, 70, 201]))"
proof -
  have h1: "(1, 0) \<in> set (products cafe_shop)"
    by (simp add: cafe_shop_def)
  have n1: "p_name (heap cafe_shop 0) = [99, 97, 102, 233]"
    and n2: "pd_name cafe_upper = [67, 65, 70, 201]"
    by (simp_all add: cafe_shop_def cafe_upper_def utf16_def)
  have h2: "toLowerCase_latin1 (p_name (heap cafe_shop 0)) = toLowerCase_latin1 (pd_name cafe_upper)"
    by (simp add: n1 n2 toLowerCase_latin1_def)
  have valid: "ProductValidationStrategy_validate cafe_upper = []"
    by (simp add: ProductValidationStrategy_validate_def cafe_upper_def trim_def is_space_def
                  Number_isInteger_def utf16_def)
  from duplicate_name_rejected [OF h1 h2] valid n1 n2 h1 h2 show ?thesis
    by simp
qed

text \<open>
  Claim C10. The statistics collector does not look at the old status: every successful
  \<open>updateOrderStatus\<close> to \<open>COMPLETED\<close>, whatever the status of the order was, adds one to
  its count of completed orders and the total of the order to its revenue.
\<close>

theorem completed_counted_on_every_update:
  assumes "OrderRepository_findById s orderId = Some order"
    and "distinct (observers (eventSubject s))"
    and "r \<in> set (observers (eventSubject s))"
    and "objects (eventSubject s) r = StatisticsObserver st"
    and "OrderFacade_updateOrderStatus s orderId (utf16 ''COMPLETED'') = (s', Inr order')"
  shows "objects (eventSubject s') r =
           StatisticsObserver (st\<lparr>ordersCompleted := ordersCompleted st + 1,
                                   totalRevenue := totalRevenue st + o_total order\<rparr>)"
proof -
  let ?order1 = "order\<lparr>o_status := utf16 ''COMPLETED''\<rparr>"
  let ?s1 = "s\<lparr>orders := AList.update orderId ?order1 (orders s)\<rparr>"
  let ?e = "ORDER_STATUS_CHANGED orderId (o_status order) (utf16 ''COMPLETED'') (Order_toJSON (heap ?s1) ?order1)"
  have "eventSubject_notify ?s1 ?e = (s', None)"
    using assms(1,5)
    by (auto simp: OrderFacade_updateOrderStatus_def updateStatus_def STATUS_def
                   OrderRepository_update_def
             split: prod.splits option.splits sum.splits)
  then obtain b' where b': "s' = ?s1\<lparr>eventSubject := b'\<rparr>"
      "notify Observer_update Observer_getName (eventSubject s) ?e = (b', None)"
    by (auto elim!: eventSubject_notifyE)
  from notify_objects [OF b'(2) assms(2,3)] assms(4) b'(1) show ?thesis
    by (simp add: Order_toJSON_def)
qed

theorem completed_counted_on_every_update_witness:
  "o_status (the (OrderRepository_findById completed_shop 1)) = utf16 ''COMPLETED'' \<and>
   objects (eventSubject completed_shop) 2 =
     StatisticsObserver \<lparr>ordersCreated = 1, ordersCompleted = 1, ordersCancelled = 0,
                         totalRevenue = 20, lowStockAlerts = 1\<rparr> \<and>
   objects (eventSubject (fst (OrderFacade_updateOrderStatus completed_shop 1 (utf16 ''COMPLETED'')))) 2 =
     StatisticsObserver \<lparr>ordersCreated = 1, ordersCompleted = 2, ordersCancelled = 0,
                         totalRevenue = 40, lowStockAlerts = 1\<rparr>"
proof -
  let ?order = "\<lparr>o_id = Some 1, o_customerId = utf16 ''CUST001'', o_customerName = utf16 ''Ana Lima'',
      o_items = [\<lparr>oi_product = 0, oi_quantity = 2, oi_unitPrice = 10\<rparr>],
      o_status = utf16 ''COMPLETED'', o_subtotal = 20, o_discount = 0, o_total = 20\<rparr>"
  let ?st = "\<lparr>ordersCreated = 1, ordersCompleted = 1, ordersCancelled = 0,
                         totalRevenue = 20, lowStockAlerts = 1\<rparr>"
  have h1: "OrderRepository_findById completed_shop 1 = Some ?order"
    by (simp add: completed_shop_def demo_shop_def order_of_mouse_def run_defs)
  have h2: "distinct (observers (eventSubject completed_shop))"
    and h3: "2 \<in> set (observers (eventSubject completed_shop))"
    by (simp_all add: completed_shop_def demo_shop_def order_of_mouse_def run_defs)
  have h4: "objects (eventSubject completed_shop) 2 = StatisticsObserver ?st"
    by (simp add: completed_shop_def demo_shop_def order_of_mouse_def run_defs)
  have "snd (OrderFacade_updateOrderStatus completed_shop 1 (utf16 ''COMPLETED'')) = Inr ?order"
    by (simp add: completed_shop_def demo_shop_def order_of_mouse_def run_defs)
  then have h5: "OrderFacade_updateOrderStatus completed_shop 1 (utf16 ''COMPLETED'') =
      (fst (OrderFacade_updateOrderStatus completed_shop 1 (utf16 ''COMPLETED'')), Inr ?order)"
    by (simp add: prod_eq_iff)
  from completed_counted_on_every_update [OF h1 h2 h3 h4 h5] h1 h4 show ?thesis
    by simp
qed

section \<open>Validation of order requests\<close>

lemma Number_isInteger_iff: "Number_isInteger x \<longleftrightarrow> x \<in> \<int>"
  unfolding Number_isInteger_def
  by (metis Ints_of_int Ints_cases floor_of_int)

lemma trim_Nil [simp]: "trim [] = []"
  by (simp add: trim_def)

lemma set_item_errors:
  "set (item_errors k item) =
     {v. (v = ItemProductIdRequired (k + 1) \<and> productId item = 0) \<or>
         (v = ItemQuantityNotPositive (k + 1) \<and> quantity item \<le> 0) \<or>
         (v = ItemQuantityNotInteger (k + 1) \<and> quantity item \<notin> \<int>)}"
  by (auto simp: item_errors_def Number_isInteger_iff)

lemma calculate_error:
  "calculate strategy x = Inl err \<Longrightarrow> err = NotImplemented ''calculate'' \<or> err = TypeError"
  by (cases strategy) (auto split: option.splits if_splits)

text \<open>The errors that leave the item loop.\<close>

lemma createOrder_items_error:
  "createOrder_items s order its = (s', Inl err) \<Longrightarrow>
   (\<exists>k. err = ProductNotFound k) \<or> (\<exists>n a b. err = InsufficientStock n a b) \<or>
   (\<exists>n. err = ReduceStockFailed n) \<or> (\<exists>i. err = ProductIdNotFound i) \<or>
   err = NotImplemented ''getName''"
proof (induction its arbitrary: s order)
  case Nil
  then show ?case by simp
next
  case (Cons item rest)
  show ?case
    using Cons.prems
    by (auto split: option.splits if_splits sum.splits prod.splits
             dest!: Cons.IH eventSubject_notify_error
             simp: reduceStock_def ProductRepository_update_def)
qed

lemma createOrder_body_error:
  assumes "(case createOrder_items s order its of
              (s1, Inl err) \<Rightarrow> (s1, Inl err)
            | (s1, Inr order1) \<Rightarrow>
                (case calculate (discountStrategy s1) (o_subtotal order1) of
                   Inl err \<Rightarrow> (s1, Inl err)
                 | Inr discount \<Rightarrow>
                     (case OrderRepository_create s1 (applyDiscount order1 discount) of
                        (s2, savedOrder) \<Rightarrow>
                          (case eventSubject_notify s2
                                  (ORDER_CREATED (Order_toJSON (heap s2) savedOrder)) of
                             (s3, Some err) \<Rightarrow> (s3, Inl err)
                           | (s3, None) \<Rightarrow> (s3, Inr savedOrder))))) = (s', Inl err)"
  shows "err \<noteq> Nullish \<and> err \<noteq> CustomerDataRequired \<and> err \<noteq> OrderItemsRequired \<and>
         (\<forall>vs. err \<noteq> ValidationFailed vs)"
  using assms
  by (auto split: option.splits if_splits sum.splits prod.splits
           dest!: createOrder_items_error eventSubject_notify_error calculate_error)

text \<open>
  A request that passes the checks of the orchestrator goes into the item loop, and an
  error of the loop is the error of \<open>createOrder\<close>, with the state that the loop left.
\<close>

lemma OrderFacade_createOrder_loop_error:
  assumes "customerId d \<noteq> []" and "customerName d \<noteq> []" and "items d = Some its"
    and "its \<noteq> []"
    and "createOrder_items s (Order_new None (customerId d) (customerName d)) its = (s1, Inl err)"
  shows "OrderFacade_createOrder s d = (s1, Inl err)"
proof -
  have "err \<noteq> Nullish"
    using createOrder_items_error [OF assms(5)] by auto
  then show ?thesis
    using assms by (simp add: OrderFacade_createOrder_def)
qed

lemma OrderFacade_createOrder_passes:
  assumes "customerId d \<noteq> []" and "customerName d \<noteq> []" and "items d = Some its"
    and "its \<noteq> []"
  shows "snd (OrderFacade_createOrder s d) \<noteq> Inl CustomerDataRequired \<and>
         snd (OrderFacade_createOrder s d) \<noteq> Inl OrderItemsRequired \<and>
         (\<forall>vs. snd (OrderFacade_createOrder s d) \<noteq> Inl (ValidationFailed vs))"
proof -
  let ?body = "case createOrder_items s (Order_new None (customerId d) (customerName d)) its of
              (s1, Inl err) \<Rightarrow> (s1, Inl err)
            | (s1, Inr order1) \<Rightarrow>
                (case calculate (discountStrategy s1) (o_subtotal order1) of
                   Inl err \<Rightarrow> (s1, Inl err)
                 | Inr discount \<Rightarrow>
                     (case OrderRepository_create s1 (applyDiscount order1 discount) of
                        (s2, savedOrder) \<Rightarrow>
                          (case eventSubject_notify s2
                                  (ORDER_CREATED (Order_toJSON (heap s2) savedOrder)) of
                             (s3, Some err) \<Rightarrow> (s3, Inl err)
                           | (s3, None) \<Rightarrow> (s3, Inr savedOrder))))"
  define body where "body = ?body"
  have run: "OrderFacade_createOrder s d = rethrow body"
    using assms by (simp add: OrderFacade_createOrder_def body_def)
  have excl: "err \<noteq> Nullish \<and> err \<noteq> CustomerDataRequired \<and> err \<noteq> OrderItemsRequired \<and>
         (\<forall>vs. err \<noteq> ValidationFailed vs)" if "snd body = Inl err" for err
  proof -
    from that have "body = (fst body, Inl err)"
      by (simp add: prod_eq_iff)
    then show ?thesis
      unfolding body_def by (rule createOrder_body_error)
  qed
  then have "snd body \<noteq> Inl Nullish"
    by blast
  then have "rethrow body = body"
    by (rule rethrow_id)
  then show ?thesis
    using run excl by auto
qed

text \<open>The first item of the loop: the product lookup and the stock check.\<close>

lemma createOrder_items_lookup:
  "ProductRepository_findById s (Some (productId item)) = None \<Longrightarrow>
   createOrder_items s order (item # rest) = (s, Inl (ProductNotFound (productId item)))"
  by simp

lemma createOrder_items_stock_check:
  "ProductRepository_findById s (Some (productId item)) = Some p \<Longrightarrow>
   p_stock (heap s p) < quantity item \<Longrightarrow>
   createOrder_items s order (item # rest) =
     (s, Inl (InsufficientStock (p_name (heap s p)) (p_stock (heap s p)) (quantity item)))"
  by (simp add: hasStock_def)

lemma validate_members:
  "(CustomerIdRequired \<in> set (OrderValidationStrategy_validate d) \<longleftrightarrow> customerId d = [])"
  "(CustomerNameRequired \<in> set (OrderValidationStrategy_validate d) \<longleftrightarrow> trim (customerName d) = [])"
  "(CustomerNameTooShort \<in> set (OrderValidationStrategy_validate d) \<longleftrightarrow>
      trim (customerName d) \<noteq> [] \<and> length (customerName d) < 3)"
  "(ItemsRequired \<in> set (OrderValidationStrategy_validate d) \<longleftrightarrow> items d = None)"
  "(ItemsEmpty \<in> set (OrderValidationStrategy_validate d) \<longleftrightarrow> items d = Some [])"
  by (auto simp: OrderValidationStrategy_validate_def set_item_errors in_set_enumerate_eq
           split: option.splits)

lemma validate_item_members:
  assumes "items d = Some its" and "k < length its"
  shows "(ItemProductIdRequired (k + 1) \<in> set (OrderValidationStrategy_validate d) \<longleftrightarrow>
            productId (its ! k) = 0)"
    and "(ItemQuantityNotPositive (k + 1) \<in> set (OrderValidationStrategy_validate d) \<longleftrightarrow>
            quantity (its ! k) \<le> 0)"
    and "(ItemQuantityNotInteger (k + 1) \<in> set (OrderValidationStrategy_validate d) \<longleftrightarrow>
            quantity (its ! k) \<notin> \<int>)"
  using assms
  by (auto simp: OrderValidationStrategy_validate_def set_item_errors in_set_enumerate_eq)

lemma item_errors_Nil:
  "item_errors k it = [] \<longleftrightarrow> productId it \<noteq> 0 \<and> 0 < quantity it \<and> quantity it \<in> \<int>"
  by (auto simp: item_errors_def Number_isInteger_iff)

lemma validate_Nil:
  assumes "customerId d \<noteq> []" and "trim (customerName d) \<noteq> []" and "3 \<le> length (customerName d)"
    and "items d = Some its" and "its \<noteq> []"
    and "\<forall>it\<in>set its. productId it \<noteq> 0 \<and> 0 < quantity it \<and> quantity it \<in> \<int>"
  shows "OrderValidationStrategy_validate d = []"
proof -
  have "\<forall>p\<in>set (enumerate 0 its). (case p of (index, item) \<Rightarrow> item_errors index item) = []"
    using assms(6) by (auto simp: in_set_enumerate_eq item_errors_Nil)
  then have "concat (map (\<lambda>(index, item). item_errors index item) (enumerate 0 its)) = []"
    by simp
  moreover have "customerName d \<noteq> []"
    using assms(3) by auto
  ultimately show ?thesis
    using assms(1-5) by (simp add: OrderValidationStrategy_validate_def)
qed

lemma minus_three_halves_not_integer: "\<not> Number_isInteger (- 3 / 2)"
proof
  assume "Number_isInteger (- 3 / 2)"
  then obtain n :: int where "(- 3 / 2 :: rat) = of_int n"
    by (auto simp: Number_isInteger_iff elim: Ints_cases)
  then have "(of_int (2 * n) :: rat) = of_int (- 3)"
    by simp
  then have "2 * n = - 3"
    by (simp only: of_int_eq_iff)
  then show False
    by presburger
qed

text \<open>
  Claim C3, as stated, fails: a request with a customer id, the customer name \<open>Al\<close> and
  one item of quantity 2 is rejected by the validation, which wants three characters.
\<close>

theorem short_name_rejected:
  "customerId short_name_order \<noteq> [] \<and> customerName short_name_order \<noteq> [] \<and>
   items short_name_order = Some [\<lparr>productId = 1, quantity = 2\<rparr>] \<and>
   OrderService_createOrder demo_shop short_name_order =
     (demo_shop, Inl (ValidationFailed [CustomerNameTooShort]))"
  by (simp add: short_name_order_def OrderService_createOrder_def
        OrderValidationStrategy_validate_def item_errors_def Number_isInteger_def trim_def
        is_space_def utf16_def)

text \<open>
  Claim C3, amended. \<open>createOrder\<close> of the order service fails with the list of all the
  violations that the validation strategy finds, and leaves the state as it was, when that
  list is not empty. The list holds a violation exactly when its condition holds: the
  customer id is empty; the customer name is empty or blank; it is not blank and shorter
  than 3 characters; the items are absent; the item list is empty; and, for each item, its
  product id is 0 or absent, its quantity is not positive, its quantity is not an integer.
  A request with a customer id, a customer name of at least 3 characters that is not
  blank, and a non-empty item list whose items all have a non-zero product id and a
  positive integer quantity passes the validation and the checks of the orchestrator, and
  goes into the item loop: the result is no validation error and none of the two errors
  of the orchestrator about missing data; an error of the item loop is the result, with
  the state that the loop left; when the product of the first item is not in the store the
  result is the product-not-found error, and when it is there with less stock than the
  quantity asked the result is the insufficient-stock error, the state unchanged in both
  cases.
\<close>

theorem order_validation:
  "(OrderValidationStrategy_validate d \<noteq> [] \<longrightarrow>
      OrderService_createOrder s d =
        (s, Inl (ValidationFailed (OrderValidationStrategy_validate d)))) \<and>
   (CustomerIdRequired \<in> set (OrderValidationStrategy_validate d) \<longleftrightarrow> customerId d = []) \<and>
   (CustomerNameRequired \<in> set (OrderValidationStrategy_validate d) \<longleftrightarrow>
      trim (customerName d) = []) \<and>
   (CustomerNameTooShort \<in> set (OrderValidationStrategy_validate d) \<longleftrightarrow>
      trim (customerName d) \<noteq> [] \<and> length (customerName d) < 3) \<and>
   (ItemsRequired \<in> set (OrderValidationStrategy_validate d) \<longleftrightarrow> items d = None) \<and>
   (ItemsEmpty \<in> set (OrderValidationStrategy_validate d) \<longleftrightarrow> items d = Some []) \<and>
   (\<forall>its k. items d = Some its \<and> k < length its \<longrightarrow>
      (ItemProductIdRequired (k + 1) \<in> set (OrderValidationStrategy_validate d) \<longleftrightarrow>
         productId (its ! k) = 0) \<and>
      (ItemQuantityNotPositive (k + 1) \<in> set (OrderValidationStrategy_validate d) \<longleftrightarrow>
         quantity (its ! k) \<le> 0) \<and>
      (ItemQuantityNotInteger (k + 1) \<in> set (OrderValidationStrategy_validate d) \<longleftrightarrow>
         quantity (its ! k) \<notin> \<int>)) \<and>
   (\<forall>item rest.
      customerId d \<noteq> [] \<and> trim (customerName d) \<noteq> [] \<and> 3 \<le> length (customerName d) \<and>
      items d = Some (item # rest) \<and>
      (\<forall>it\<in>set (item # rest). productId it \<noteq> 0 \<and> 0 < quantity it \<and> quantity it \<in> \<int>) \<longrightarrow>
      OrderValidationStrategy_validate d = [] \<and>
      OrderService_createOrder s d = OrderFacade_createOrder s d \<and>
      (\<forall>vs. snd (OrderService_createOrder s d) \<noteq> Inl (ValidationFailed vs)) \<and>
      snd (OrderService_createOrder s d) \<noteq> Inl CustomerDataRequired \<and>
      snd (OrderService_createOrder s d) \<noteq> Inl OrderItemsRequired \<and>
      (\<forall>s1 err.
         createOrder_items s (Order_new None (customerId d) (customerName d)) (item # rest) =
           (s1, Inl err) \<longrightarrow>
         OrderService_createOrder s d = (s1, Inl err)) \<and>
      (ProductRepository_findById s (Some (productId item)) = None \<longrightarrow>
         OrderService_createOrder s d = (s, Inl (ProductNotFound (productId item)))) \<and>
      (\<forall>p. ProductRepository_findById s (Some (productId item)) = Some p \<and>
           p_stock (heap s p) < quantity item \<longrightarrow>
         OrderService_createOrder s d =
           (s, Inl (InsufficientStock (p_name (heap s p)) (p_stock (heap s p))
                      (quantity item)))))"
proof -
  have fails: "OrderValidationStrategy_validate d \<noteq> [] \<longrightarrow>
      OrderService_createOrder s d =
        (s, Inl (ValidationFailed (OrderValidationStrategy_validate d)))"
    by (simp add: OrderService_createOrder_def)
  have passes:
     "OrderValidationStrategy_validate d = [] \<and>
      OrderService_createOrder s d = OrderFacade_createOrder s d \<and>
      (\<forall>vs. snd (OrderService_createOrder s d) \<noteq> Inl (ValidationFailed vs)) \<and>
      snd (OrderService_createOrder s d) \<noteq> Inl CustomerDataRequired \<and>
      snd (OrderService_createOrder s d) \<noteq> Inl OrderItemsRequired \<and>
      (\<forall>s1 err.
         createOrder_items s (Order_new None (customerId d) (customerName d)) (item # rest) =
           (s1, Inl err) \<longrightarrow>
         OrderService_createOrder s d = (s1, Inl err)) \<and>
      (ProductRepository_findById s (Some (productId item)) = None \<longrightarrow>
         OrderService_createOrder s d = (s, Inl (ProductNotFound (productId item)))) \<and>
      (\<forall>p. ProductRepository_findById s (Some (productId item)) = Some p \<and>
           p_stock (heap s p) < quantity item \<longrightarrow>
         OrderService_createOrder s d =
           (s, Inl (InsufficientStock (p_name (heap s p)) (p_stock (heap s p))
                      (quantity item))))"
    if ok: "customerId d \<noteq> []" "trim (customerName d) \<noteq> []" "3 \<le> length (customerName d)"
      "items d = Some (item # rest)"
      "\<forall>it\<in>set (item # rest). productId it \<noteq> 0 \<and> 0 < quantity it \<and> quantity it \<in> \<int>"
    for item rest
  proof -
    have name: "customerName d \<noteq> []" using ok(3) by auto
    have v: "OrderValidationStrategy_validate d = []"
      using validate_Nil [OF ok(1,2,3,4) _ ok(5)] by simp
    then have same: "OrderService_createOrder s d = OrderFacade_createOrder s d"
      by (simp add: OrderService_createOrder_def)
    note p = OrderFacade_createOrder_passes [OF ok(1) name ok(4), of s, simplified]
    have loop: "\<forall>s1 err.
         createOrder_items s (Order_new None (customerId d) (customerName d)) (item # rest) =
           (s1, Inl err) \<longrightarrow>
         OrderService_createOrder s d = (s1, Inl err)"
      using OrderFacade_createOrder_loop_error [OF ok(1) name ok(4)] same by simp
    have lookup: "ProductRepository_findById s (Some (productId item)) = None \<longrightarrow>
         OrderService_createOrder s d = (s, Inl (ProductNotFound (productId item)))"
      using loop createOrder_items_lookup by blast
    have stock: "\<forall>p. ProductRepository_findById s (Some (productId item)) = Some p \<and>
           p_stock (heap s p) < quantity item \<longrightarrow>
         OrderService_createOrder s d =
           (s, Inl (InsufficientStock (p_name (heap s p)) (p_stock (heap s p))
                      (quantity item)))"
      using loop createOrder_items_stock_check by blast
    show ?thesis
      using v same p loop lookup stock by (simp only: simp_thms)
  qed
  have valid: "\<forall>item rest.
      customerId d \<noteq> [] \<and> trim (customerName d) \<noteq> [] \<and> 3 \<le> length (customerName d) \<and>
      items d = Some (item # rest) \<and>
      (\<forall>it\<in>set (item # rest). productId it \<noteq> 0 \<and> 0 < quantity it \<and> quantity it \<in> \<int>) \<longrightarrow>
      OrderValidationStrategy_validate d = [] \<and>
      OrderService_createOrder s d = OrderFacade_createOrder s d \<and>
      (\<forall>vs. snd (OrderService_createOrder s d) \<noteq> Inl (ValidationFailed vs)) \<and>
      snd (OrderService_createOrder s d) \<noteq> Inl CustomerDataRequired \<and>
      snd (OrderService_createOrder s d) \<noteq> Inl OrderItemsRequired \<and>
      (\<forall>s1 err.
         createOrder_items s (Order_new None (customerId d) (customerName d)) (item # rest) =
           (s1, Inl err) \<longrightarrow>
         OrderService_createOrder s d = (s1, Inl err)) \<and>
      (ProductRepository_findById s (Some (productId item)) = None \<longrightarrow>
         OrderService_createOrder s d = (s, Inl (ProductNotFound (productId item)))) \<and>
      (\<forall>p. ProductRepository_findById s (Some (productId item)) = Some p \<and>
           p_stock (heap s p) < quantity item \<longrightarrow>
         OrderService_createOrder s d =
           (s, Inl (InsufficientStock (p_name (heap s p)) (p_stock (heap s p))
                      (quantity item))))"
  proof (intro allI impI)
    fix item rest
    assume h: "customerId d \<noteq> [] \<and> trim (customerName d) \<noteq> [] \<and>
      3 \<le> length (customerName d) \<and> items d = Some (item # rest) \<and>
      (\<forall>it\<in>set (item # rest). productId it \<noteq> 0 \<and> 0 < quantity it \<and> quantity it \<in> \<int>)"
    then have "customerId d \<noteq> []" "trim (customerName d) \<noteq> []" "3 \<le> length (customerName d)"
      "items d = Some (item # rest)"
      "\<forall>it\<in>set (item # rest). productId it \<noteq> 0 \<and> 0 < quantity it \<and> quantity it \<in> \<int>"
      by blast+
    then show "OrderValidationStrategy_validate d = [] \<and>
      OrderService_createOrder s d = OrderFacade_createOrder s d \<and>
      (\<forall>vs. snd (OrderService_createOrder s d) \<noteq> Inl (ValidationFailed vs)) \<and>
      snd (OrderService_createOrder s d) \<noteq> Inl CustomerDataRequired \<and>
      snd (OrderService_createOrder s d) \<noteq> Inl OrderItemsRequired \<and>
      (\<forall>s1 err.
         createOrder_items s (Order_new None (customerId d) (customerName d)) (item # rest) =
           (s1, Inl err) \<longrightarrow>
         OrderService_createOrder s d = (s1, Inl err)) \<and>
      (ProductRepository_findById s (Some (productId item)) = None \<longrightarrow>
         OrderService_createOrder s d = (s, Inl (ProductNotFound (productId item)))) \<and>
      (\<forall>p. ProductRepository_findById s (Some (productId item)) = Some p \<and>
           p_stock (heap s p) < quantity item \<longrightarrow>
         OrderService_createOrder s d =
           (s, Inl (InsufficientStock (p_name (heap s p)) (p_stock (heap s p))
                      (quantity item))))"
      by (rule passes)
  qed
  have items: "\<forall>its k. items d = Some its \<and> k < length its \<longrightarrow>
      (ItemProductIdRequired (k + 1) \<in> set (OrderValidationStrategy_validate d) \<longleftrightarrow>
         productId (its ! k) = 0) \<and>
      (ItemQuantityNotPositive (k + 1) \<in> set (OrderValidationStrategy_validate d) \<longleftrightarrow>
         quantity (its ! k) \<le> 0) \<and>
      (ItemQuantityNotInteger (k + 1) \<in> set (OrderValidationStrategy_validate d) \<longleftrightarrow>
         quantity (its ! k) \<notin> \<int>)"
    using validate_item_members [of d] by blast
  note m = validate_members [of d]
  show ?thesis
    using fails m(1) m(2) m(3) m(4) m(5) items valid by (intro conjI)
qed

theorem order_validation_witness:
  "OrderService_createOrder demo_shop bad_order =
     (demo_shop, Inl (ValidationFailed
        [CustomerIdRequired, CustomerNameTooShort, ItemProductIdRequired 1,
         ItemQuantityNotPositive 2, ItemQuantityNotInteger 2])) \<and>
   OrderValidationStrategy_validate order_unknown = [] \<and>
   OrderService_createOrder demo_shop order_unknown = (demo_shop, Inl (ProductNotFound 9)) \<and>
   OrderValidationStrategy_validate order_keyboards = [] \<and>
   OrderService_createOrder demo_shop order_keyboards =
     (demo_shop, Inl (InsufficientStock (utf16 ''Teclado'') 3 5))"
proof -
  have bad: "OrderValidationStrategy_validate bad_order =
      [CustomerIdRequired, CustomerNameTooShort, ItemProductIdRequired 1,
       ItemQuantityNotPositive 2, ItemQuantityNotInteger 2]"
    by (simp add: bad_order_def OrderValidationStrategy_validate_def item_errors_def
          minus_three_halves_not_integer trim_def is_space_def utf16_def enumerate_eq_zip
          Number_isInteger_iff)
  have "OrderValidationStrategy_validate bad_order \<noteq> [] \<longrightarrow>
      OrderService_createOrder demo_shop bad_order =
        (demo_shop, Inl (ValidationFailed (OrderValidationStrategy_validate bad_order)))"
    using order_validation [of bad_order demo_shop] by (rule conjunct1)
  then have r1: "OrderService_createOrder demo_shop bad_order =
     (demo_shop, Inl (ValidationFailed
        [CustomerIdRequired, CustomerNameTooShort, ItemProductIdRequired 1,
         ItemQuantityNotPositive 2, ItemQuantityNotInteger 2]))"
    using bad by simp
  have good1: "customerId order_unknown \<noteq> [] \<and> trim (customerName order_unknown) \<noteq> [] \<and>
      3 \<le> length (customerName order_unknown) \<and>
      items order_unknown = Some (\<lparr>productId = 9, quantity = 1\<rparr> # []) \<and>
      (\<forall>it\<in>set (\<lparr>productId = 9, quantity = 1\<rparr> # []).
         productId it \<noteq> 0 \<and> 0 < quantity it \<and> quantity it \<in> \<int>)"
    by (simp add: order_unknown_def trim_def is_space_def utf16_def)
  have find1: "ProductRepository_findById demo_shop (Some (productId \<lparr>productId = 9, quantity = 1\<rparr>)) = None"
    by (simp add: ProductRepository_findById_def demo_shop_def)
  note u = order_validation [of order_unknown demo_shop, THEN conjunct2, THEN conjunct2,
        THEN conjunct2, THEN conjunct2, THEN conjunct2, THEN conjunct2, THEN conjunct2,
        THEN spec, THEN spec, THEN mp, OF good1]
  have v2: "OrderValidationStrategy_validate order_unknown = []"
    using u by (rule conjunct1)
  have "OrderService_createOrder demo_shop order_unknown =
      (demo_shop, Inl (ProductNotFound (productId \<lparr>productId = 9, quantity = 1\<rparr>)))"
    using u [THEN conjunct2, THEN conjunct2, THEN conjunct2, THEN conjunct2, THEN conjunct2,
        THEN conjunct2, THEN conjunct1] find1
    by (rule mp)
  then have r2: "OrderService_createOrder demo_shop order_unknown =
      (demo_shop, Inl (ProductNotFound 9))"
    by simp
  have good2: "customerId order_keyboards \<noteq> [] \<and> trim (customerName order_keyboards) \<noteq> [] \<and>
      3 \<le> length (customerName order_keyboards) \<and>
      items order_keyboards = Some (\<lparr>productId = 2, quantity = 5\<rparr> # []) \<and>
      (\<forall>it\<in>set (\<lparr>productId = 2, quantity = 5\<rparr> # []).
         productId it \<noteq> 0 \<and> 0 < quantity it \<and> quantity it \<in> \<int>)"
    by (simp add: order_keyboards_def trim_def is_space_def utf16_def)
  have find2: "ProductRepository_findById demo_shop (Some (productId \<lparr>productId = 2, quantity = 5\<rparr>)) = Some 1"
    and stock2: "p_stock (heap demo_shop 1) < quantity \<lparr>productId = 2, quantity = 5\<rparr>"
    and name2: "p_name (heap demo_shop 1) = utf16 ''Teclado''" "p_stock (heap demo_shop 1) = 3"
    by (simp_all add: ProductRepository_findById_def demo_shop_def)
  note k = order_validation [of order_keyboards demo_shop, THEN conjunct2, THEN conjunct2,
        THEN conjunct2, THEN conjunct2, THEN conjunct2, THEN conjunct2, THEN conjunct2,
        THEN spec, THEN spec, THEN mp, OF good2]
  have v3: "OrderValidationStrategy_validate order_keyboards = []"
    using k by (rule conjunct1)
  have "OrderService_createOrder demo_shop order_keyboards =
      (demo_shop, Inl (InsufficientStock (p_name (heap demo_shop 1)) (p_stock (heap demo_shop 1))
         (quantity \<lparr>productId = 2, quantity = 5\<rparr>)))"
    using k [THEN conjunct2, THEN conjunct2, THEN conjunct2, THEN conjunct2, THEN conjunct2,
        THEN conjunct2, THEN conjunct2, THEN spec, of 1] find2 stock2
    by blast
  then have r3: "OrderService_createOrder demo_shop order_keyboards =
      (demo_shop, Inl (InsufficientStock (utf16 ''Teclado'') 3 5))"
    using name2 by simp
  show ?thesis
    using r1 v2 r2 v3 r3 by (intro conjI)
qed
section \<open>The item loops on a well-formed store\<close>

lemma Product_update_self: "Product_update p (as_update_data p) = p"
  by (simp add: Product_update_def as_update_data_def)






lemma cancelOrder_items_Cons:
  assumes "wf_store s"
  shows "cancelOrder_items s (item # rest) =
     (case ProductRepository_findById s (p_id (heap s (oi_product item))) of
        None \<Rightarrow> cancelOrder_items s rest
      | Some r \<Rightarrow>
          cancelOrder_items
            (s\<lparr>heap := (heap s)(r := (heap s r)\<lparr>p_stock := binary64 (p_stock (heap s r) + oi_quantity item)\<rparr>)\<rparr>)
            rest)"
proof (cases "ProductRepository_findById s (p_id (heap s (oi_product item)))")
  case None
  then show ?thesis by simp
next
  case (Some r)
  then obtain k where k: "map_of (products s) k = Some r"
    by (auto simp: ProductRepository_findById_def split: option.splits)
  then have pid: "p_id (heap s r) = Some k"
    using assms by (simp add: wf_store_def)
  let ?inc = "(heap s r)\<lparr>p_stock := binary64 (p_stock (heap s r) + oi_quantity item)\<rparr>"
  let ?s1 = "s\<lparr>heap := (heap s)(r := ?inc)\<rparr>"
  have "ProductRepository_update ?s1 (p_id (heap s r)) (as_update_data ?inc) = (?s1, Inr r)"
    using k pid
    by (simp add: ProductRepository_update_def ProductRepository_findById_def
          Product_update_self update_triv)
  then show ?thesis
    using Some by (simp add: increaseStock_def)
qed


lemma cancelOrder_items_wf:
  assumes "wf_store s" and "cancelOrder_items s its = (s', res)"
  shows "res = None \<and> wf_store s' \<and> products s' = products s \<and> orders s' = orders s \<and>
         eventSubject s' = eventSubject s \<and> (\<forall>r. p_id (heap s' r) = p_id (heap s r))"
  using assms
proof (induction its arbitrary: s)
  case Nil
  then show ?case by simp
next
  case (Cons item rest)
  show ?case
  proof (cases "ProductRepository_findById s (p_id (heap s (oi_product item)))")
    case None
    with Cons.prems have "cancelOrder_items s rest = (s', res)"
      by simp
    from Cons.IH [OF Cons.prems(1) this] show ?thesis .
  next
    case (Some r)
    let ?s1 = "s\<lparr>heap := (heap s)(r := (heap s r)\<lparr>p_stock := binary64 (p_stock (heap s r) + oi_quantity item)\<rparr>)\<rparr>"
    have rec: "cancelOrder_items ?s1 rest = (s', res)"
      using Cons.prems(2) Some
      by (simp add: cancelOrder_items_Cons [OF Cons.prems(1)] del: cancelOrder_items.simps)
    have wf1: "wf_store ?s1"
      using Cons.prems(1) by (simp add: wf_store_def)
    from Cons.IH [OF wf1 rec] show ?thesis
      by simp
  qed
qed




lemma OrderFacade_cancelOrderE:
  assumes "OrderFacade_cancelOrder t i = (s2, Inr order2)"
  obtains order t1 where "map_of (orders t) i = Some order"
    and "cancelOrder_items t (o_items order) = (t1, None)"
    and "heap s2 = heap t1" and "products s2 = products t1"
  using assms
  by (auto simp: OrderFacade_cancelOrder_def OrderRepository_findById_def
                 OrderRepository_update_def
           split: option.splits if_splits prod.splits sum.splits
           elim!: eventSubject_notifyE)

lemma low_stock_for_simps [simp]:
  "low_stock_for k (PRODUCT_LOW_STOCK p) = (p_id p = Some k)"
  "low_stock_for k (ORDER_CREATED oj) = False"
  by (simp_all add: low_stock_for_def)




section \<open>The store stays well formed\<close>

lemma wf_fresh_system: "wf_store fresh_system \<and> refs_allocated fresh_system"
  by (simp add: wf_store_def refs_allocated_def fresh_system_def)

lemma createProduct_wf:
  assumes "wf_store s" and "refs_allocated s" and "createProduct toLowerCase s d = (s', res)"
  shows "wf_store s' \<and> refs_allocated s'"
proof (cases res)
  case (Inl err)
  then have "s' = s"
    using assms(3) by (auto simp: createProduct_def split: if_splits prod.splits)
  then show ?thesis using assms by simp
next
  case (Inr r)
  then have s': "s' = s\<lparr>heap := (heap s)(next_ref s :=
                      \<lparr>p_id = Some (counters_products s + 1), p_name = pd_name d,
                       p_description = pd_description d,
                       p_price = the (pd_price d),
                       p_stock = the (pd_stock d),
                       p_category = pd_category d\<rparr>),
                   next_ref := next_ref s + 1,
                   counters_products := counters_products s + 1,
                   products := AList.update (counters_products s + 1) (next_ref s) (products s)\<rparr>"
    using assms(3)
    by (auto simp: createProduct_def ProductRepository_create_def getNextProductId_def
             split: if_splits prod.splits)
  show ?thesis
    using assms(1,2) unfolding s' wf_store_def refs_allocated_def
    by (auto simp: update_conv' less_Suc_eq split: if_splits)
qed

lemma updateProduct_wf:
  assumes "wf_store s" and "updateProduct toLowerCase s i d = (s', res)"
  shows "wf_store s'"
proof (cases res)
  case (Inl err)
  then have "s' = s"
    using assms(2)
    by (auto simp: updateProduct_def ProductRepository_update_def
             split: if_splits sum.splits option.splits)
  then show ?thesis using assms by simp
next
  case (Inr r)
  with assms(2) have "ProductRepository_update s i d = (s', Inr r)"
    by (auto simp: updateProduct_def split: if_splits sum.splits)
  then obtain k where "map_of (products s) k = Some r"
    "s' = s\<lparr>heap := (heap s)(r := Product_update (heap s r) d),
            products := AList.update k r (products s)\<rparr>"
    by (elim ProductRepository_updateE)
  then show ?thesis
    using assms(1) by (auto simp: wf_store_def update_conv' Product_update_def split: if_splits)
qed

lemma deleteProduct_wf:
  assumes "wf_store s" and "deleteProduct s i = (s', res)"
  shows "wf_store s'"
  using assms
  by (auto simp: deleteProduct_def ProductRepository_delete_def wf_store_def delete_conv'
           split: sum.splits option.splits if_splits)

lemma p_id_Product_update [simp]: "p_id (Product_update p d) = p_id p"
  by (simp add: Product_update_def)

lemma ProductRepository_update_wf:
  assumes "wf_store s" and "ProductRepository_update s i d = (s', res)"
  shows "wf_store s'"
proof (cases res)
  case (Inl err)
  then have "s' = s"
    using assms(2) by (auto simp: ProductRepository_update_def split: option.splits)
  then show ?thesis using assms(1) by simp
next
  case (Inr u)
  with assms(2) obtain k where "map_of (products s) k = Some u"
    "s' = s\<lparr>heap := (heap s)(u := Product_update (heap s u) d),
            products := AList.update k u (products s)\<rparr>"
    by (auto elim!: ProductRepository_updateE)
  then show ?thesis
    using assms(1) by (simp add: wf_store_def update_triv)
qed

lemma createOrder_items_wf:
  "wf_store s \<Longrightarrow> createOrder_items s order its = (s', res) \<Longrightarrow> wf_store s'"
proof (induction its arbitrary: s order)
  case Nil
  then show ?case by simp
next
  case (Cons item rest)
  show ?case
  proof (cases "ProductRepository_findById s (Some (productId item))")
    case None
    then show ?thesis using Cons.prems by simp
  next
    case (Some r)
    show ?thesis
    proof (cases "hasStock (heap s r) (quantity item)")
      case False
      then show ?thesis using Cons.prems Some by simp
    next
      case True
      let ?reduced = "(heap s r)\<lparr>p_stock := binary64 (p_stock (heap s r) - quantity item)\<rparr>"
      let ?s1 = "s\<lparr>heap := (heap s)(r := ?reduced)\<rparr>"
      have red: "reduceStock (heap s r) (quantity item) = Inr ?reduced"
        using True by (simp add: reduceStock_def)
      have wf1: "wf_store ?s1"
        using Cons.prems(1) by (simp add: wf_store_def)
      obtain s2 res2 where upd:
        "ProductRepository_update ?s1 (p_id ?reduced) (as_update_data ?reduced) = (s2, res2)"
        by (cases "ProductRepository_update ?s1 (p_id ?reduced) (as_update_data ?reduced)")
      have wf2: "wf_store s2"
        using ProductRepository_update_wf [OF wf1 upd] .
      show ?thesis
        using Cons.prems(2) Some True red upd wf2
        by (auto split: sum.splits if_splits prod.splits option.splits
                 elim!: eventSubject_notifyE
                 dest!: Cons.IH [rotated] simp: wf_store_def)
    qed
  qed
qed


lemma wf_store_frame:
  "wf_store s \<Longrightarrow> heap s' = heap s \<Longrightarrow> products s' = products s \<Longrightarrow> wf_store s'"
  by (simp add: wf_store_def)

lemma OrderFacade_createOrder_wf:
  assumes "wf_store s" and "OrderFacade_createOrder s d = (s', res)"
  shows "wf_store s'"
proof (cases "customerId d = [] \<or> customerName d = [] \<or> items d = None \<or> items d = Some []")
  case True
  then have "s' = s"
    using assms(2) by (auto simp: OrderFacade_createOrder_def split: if_splits)
  then show ?thesis using assms(1) by simp
next
  case False
  then obtain its where its: "items d = Some its" "its \<noteq> []"
    and cust: "customerId d \<noteq> []" "customerName d \<noteq> []"
    by auto
  obtain s1 r1 where loop:
    "createOrder_items s (Order_new None (customerId d) (customerName d)) its = (s1, r1)"
    by (cases "createOrder_items s (Order_new None (customerId d) (customerName d)) its")
  have wf1: "wf_store s1"
    using createOrder_items_wf [OF assms(1) loop] .
  have run: "s' = fst
      (case r1 of
         Inl err \<Rightarrow> (s1, Inl err)
       | Inr order \<Rightarrow>
           (case calculate (discountStrategy s1) (o_subtotal order) of
              Inl err \<Rightarrow> (s1, Inl err)
            | Inr discount \<Rightarrow>
                (case OrderRepository_create s1 (applyDiscount order discount) of
                   (s2, savedOrder) \<Rightarrow>
                     (case eventSubject_notify s2
                             (ORDER_CREATED (Order_toJSON (heap s2) savedOrder)) of
                        (s3, Some err) \<Rightarrow> (s3, Inl err)
                      | (s3, None) \<Rightarrow> (s3, Inr savedOrder)))))"
    using arg_cong [OF assms(2), of fst] its cust loop
    by (simp add: OrderFacade_createOrder_def)
  have "heap s' = heap s1 \<and> products s' = products s1"
  proof (cases r1)
    case (Inl err)
    then show ?thesis using run by simp
  next
    case (Inr order)
    show ?thesis
    proof (cases "calculate (discountStrategy s1) (o_subtotal order)")
      case (Inl err)
      then show ?thesis using run Inr by simp
    next
      case discount: (Inr discount)
      obtain s2 savedOrder where c: "OrderRepository_create s1 (applyDiscount order discount) = (s2, savedOrder)"
        by (cases "OrderRepository_create s1 (applyDiscount order discount)")
      then have s2: "heap s2 = heap s1 \<and> products s2 = products s1"
        by (auto simp: OrderRepository_create_def getNextOrderId_def)
      obtain s3 r3 where n: "eventSubject_notify s2 (ORDER_CREATED (Order_toJSON (heap s2) savedOrder)) = (s3, r3)"
        by (cases "eventSubject_notify s2 (ORDER_CREATED (Order_toJSON (heap s2) savedOrder))")
      then have s3: "heap s3 = heap s2 \<and> products s3 = products s2"
        by (auto elim!: eventSubject_notifyE)
      have "s' = s3"
        using run Inr discount c n by (cases r3) simp_all
      then show ?thesis using s2 s3 by simp
    qed
  qed
  then show ?thesis
    using wf1 by (auto intro: wf_store_frame)
qed


lemma OrderFacade_cancelOrder_wf:
  assumes "wf_store s" and "OrderFacade_cancelOrder s i = (s', Inr order')"
  shows "wf_store s'"
proof -
  from assms(2) obtain order t1 where
    "map_of (orders s) i = Some order"
    and loop: "cancelOrder_items s (o_items order) = (t1, None)"
    and same: "heap s' = heap t1" "products s' = products t1"
    by (rule OrderFacade_cancelOrderE)
  from cancelOrder_items_wf [OF assms(1) loop] have "wf_store t1"
    by simp
  then show ?thesis
    using same by (rule wf_store_frame)
qed


lemma demo_shop_reachable:
  "demo_shop =
     fst (createProduct toLowerCase_latin1
       (fst (createProduct toLowerCase_latin1 fresh_system
          \<lparr>pd_name = utf16 ''Mouse'', pd_description = [], pd_price = Some 10,
           pd_stock = Some 8, pd_category = utf16 ''Perifericos''\<rparr>))
       \<lparr>pd_name = utf16 ''Teclado'', pd_description = [], pd_price = Some 5,
        pd_stock = Some 3, pd_category = utf16 ''Perifericos''\<rparr>)"
  by (simp add: demo_shop_def fresh_system_def createProduct_def
        ProductValidationStrategy_validate_def trim_def is_space_def Number_isInteger_def
        existsByName_def ProductRepository_findAll_def toLowerCase_latin1_def utf16_def
        ProductRepository_create_def getNextProductId_def attach_def EventSubject_new_def
        fun_eq_iff)
section \<open>Stock, low-stock events and captured prices\<close>

text \<open>
  Claim C1 asks that a \<open>createOrder\<close> that fails on one of its items leaves the stock of
  every product as it was. The code does not do that: a valid request for 2 mice (8 in
  stock) and 5 keyboards (3 in stock) fails with the insufficient-stock error of the second
  item, and the stock of the mouse stays at 6.
\<close>

theorem partial_commit_on_failure:
  "OrderValidationStrategy_validate order_too_many = [] \<and>
   snd (OrderService_createOrder demo_shop order_too_many) =
     Inl (InsufficientStock (utf16 ''Teclado'') 3 5) \<and>
   p_stock (heap demo_shop 0) = 8 \<and>
   p_stock (heap (fst (OrderService_createOrder demo_shop order_too_many)) 0) = 6"
  by (simp add: demo_shop_def order_too_many_def run_defs enumerate_eq_zip)








text \<open>
  Claim C6, as stated, fails for the product name: an order item holds the product object
  and not a copy of its name, so an order of mice reports the name \<open>Rato\<close> after the
  product has been renamed.
\<close>

theorem reported_name_follows_product:
  "OrderRepository_findById
     (fst (updateProduct toLowerCase_latin1 (fst (OrderFacade_createOrder demo_shop order_of_mouse)) (Some 1) rename_mouse)) 1 =
   OrderRepository_findById (fst (OrderFacade_createOrder demo_shop order_of_mouse)) 1 \<and>
   map j_productName (oj_items (Order_toJSON
     (heap (fst (OrderFacade_createOrder demo_shop order_of_mouse)))
     (the (OrderRepository_findById (fst (OrderFacade_createOrder demo_shop order_of_mouse)) 1)))) =
     [utf16 ''Mouse''] \<and>
   map j_productName (oj_items (Order_toJSON
     (heap (fst (updateProduct toLowerCase_latin1 (fst (OrderFacade_createOrder demo_shop order_of_mouse)) (Some 1) rename_mouse)))
     (the (OrderRepository_findById
        (fst (updateProduct toLowerCase_latin1 (fst (OrderFacade_createOrder demo_shop order_of_mouse)) (Some 1) rename_mouse)) 1)))) =
     [utf16 ''Rato'']"
  by (simp add: demo_shop_def order_of_mouse_def rename_mouse_def run_defs updateProduct_def
        ProductUpdateValidationStrategy_validate_def getProductById_def existsByName_def
        ProductRepository_findAll_def toLowerCase_latin1_def)

text \<open>
  Claim C6, amended. A successful product update leaves the stored orders as they are, and
  for every order item the reported product id, quantity, unit price and subtotal are
  unchanged; the reported product name is the name of the product as it is now: the new
  name when the item is for the updated product and the update carries a name.
\<close>

theorem product_update_keeps_captured_price:
  assumes "updateProduct toLowerCase s i updateData = (s', Inr r)"
  shows "orders s' = orders s \<and>
         (\<forall>item. j_productId (OrderItem_toJSON (heap s') item) =
                    j_productId (OrderItem_toJSON (heap s) item) \<and>
                  j_quantity (OrderItem_toJSON (heap s') item) =
                    j_quantity (OrderItem_toJSON (heap s) item) \<and>
                  j_unitPrice (OrderItem_toJSON (heap s') item) =
                    j_unitPrice (OrderItem_toJSON (heap s) item) \<and>
                  j_subtotal (OrderItem_toJSON (heap s') item) =
                    j_subtotal (OrderItem_toJSON (heap s) item) \<and>
                  j_productName (OrderItem_toJSON (heap s') item) =
                    (if oi_product item = r \<and> truthy_str (u_name updateData)
                     then the (u_name updateData)
                     else j_productName (OrderItem_toJSON (heap s) item)))"
proof -
  from assms have "ProductRepository_update s i updateData = (s', Inr r)"
    by (auto simp: updateProduct_def split: if_splits sum.splits)
  then obtain k where
    "s' = s\<lparr>heap := (heap s)(r := Product_update (heap s r) updateData),
            products := AList.update k r (products s)\<rparr>"
    by (elim ProductRepository_updateE)
  then show ?thesis
    by (simp add: OrderItem_toJSON_def Product_update_def)
qed

theorem product_update_keeps_captured_price_witness:
  "p_price (heap (fst (updateProduct toLowerCase_latin1 (fst (OrderFacade_createOrder demo_shop order_of_mouse))
                    (Some 1) rename_mouse)) 0) = 25 \<and>
   j_unitPrice (OrderItem_toJSON
     (heap (fst (updateProduct toLowerCase_latin1 (fst (OrderFacade_createOrder demo_shop order_of_mouse))
                    (Some 1) rename_mouse)))
     \<lparr>oi_product = 0, oi_quantity = 2, oi_unitPrice = 10\<rparr>) = 10 \<and>
   j_subtotal (OrderItem_toJSON
     (heap (fst (updateProduct toLowerCase_latin1 (fst (OrderFacade_createOrder demo_shop order_of_mouse))
                    (Some 1) rename_mouse)))
     \<lparr>oi_product = 0, oi_quantity = 2, oi_unitPrice = 10\<rparr>) = 20 \<and>
   j_productName (OrderItem_toJSON
     (heap (fst (updateProduct toLowerCase_latin1 (fst (OrderFacade_createOrder demo_shop order_of_mouse))
                    (Some 1) rename_mouse)))
     \<lparr>oi_product = 0, oi_quantity = 2, oi_unitPrice = 10\<rparr>) = utf16 ''Rato''"
proof -
  let ?s1 = "fst (OrderFacade_createOrder demo_shop order_of_mouse)"
  let ?item = "\<lparr>oi_product = 0, oi_quantity = 2, oi_unitPrice = 10\<rparr>"
  have run: "snd (updateProduct toLowerCase_latin1 ?s1 (Some 1) rename_mouse) = Inr 0"
    and price: "p_price (heap (fst (updateProduct toLowerCase_latin1 ?s1 (Some 1) rename_mouse)) 0) = 25"
    by (simp_all add: demo_shop_def order_of_mouse_def rename_mouse_def run_defs updateProduct_def
        ProductUpdateValidationStrategy_validate_def getProductById_def existsByName_def
        ProductRepository_findAll_def toLowerCase_latin1_def)
  have before: "j_unitPrice (OrderItem_toJSON (heap ?s1) ?item) = 10"
      "j_subtotal (OrderItem_toJSON (heap ?s1) ?item) = 20"
    by (simp_all add: OrderItem_toJSON_def getSubtotal_def)
  from run have "updateProduct toLowerCase_latin1 ?s1 (Some 1) rename_mouse =
      (fst (updateProduct toLowerCase_latin1 ?s1 (Some 1) rename_mouse), Inr 0)"
    by (simp add: prod_eq_iff)
  from product_update_keeps_captured_price [OF this, THEN conjunct2, THEN spec, of ?item]
  have "j_unitPrice (OrderItem_toJSON (heap (fst (updateProduct toLowerCase_latin1 ?s1 (Some 1) rename_mouse))) ?item) =
          j_unitPrice (OrderItem_toJSON (heap ?s1) ?item)"
    and "j_subtotal (OrderItem_toJSON (heap (fst (updateProduct toLowerCase_latin1 ?s1 (Some 1) rename_mouse))) ?item) =
          j_subtotal (OrderItem_toJSON (heap ?s1) ?item)"
    and "j_productName (OrderItem_toJSON (heap (fst (updateProduct toLowerCase_latin1 ?s1 (Some 1) rename_mouse))) ?item) =
          utf16 ''Rato''"
    by (simp_all add: rename_mouse_def utf16_def)
  then show ?thesis
    using before price by (simp add: rename_mouse_def)
qed

end
